theory Spec2Isabelle
  imports Complex_Main
begin

section \<open>Python primitives used by the sources\<close>

text \<open>
  Python \<open>str\<close> values are modelled as \<open>string\<close> (lists of 8-bit characters). ASCII
  text is represented character by character; a code point above 127 is represented by
  its UTF-8 bytes. Python's character classes are given for ASCII: the Unicode tables
  behind \<open>str.isspace\<close>, \<open>\s\<close>, \<open>\w\<close> and case-insensitive matching are not part of
  the repository, so non-ASCII whitespace, letters and case variants are outside the
  model (every byte above 127 is neither whitespace nor a word character).
  Python's \<open>len\<close> counts code points: \<open>py_len\<close> counts the bytes that are not UTF-8
  continuation bytes, which is the number of code points of well-formed UTF-8 text.
  Similarity scores and thresholds are Python floats; they are only ever compared, and
  are modelled as rationals with the thresholds at their decimal values.
\<close>

definition py_slice_from :: "int \<Rightarrow> 'a list \<Rightarrow> 'a list" where
  \<comment> \<open>\<open>xs[i:]\<close>: a negative start counts from the end and is clamped at 0.\<close>
  "py_slice_from i xs =
     (let n = int (length xs);
          start = (if i < 0 then max 0 (n + i) else min i n)
      in drop (nat start) xs)"

definition is_continuation :: "char \<Rightarrow> bool" where
  \<comment> \<open>The UTF-8 bytes \<open>0x80\<close> to \<open>0xBF\<close>, which continue a code point.\<close>
  "is_continuation c = (let n = (of_char c :: nat) in 128 \<le> n \<and> n < 192)"

definition py_len :: "string \<Rightarrow> nat" where
  \<comment> \<open>\<open>len(s)\<close>\<close>
  "py_len s = length (filter (\<lambda>c. \<not> is_continuation c) s)"

definition is_space :: "char \<Rightarrow> bool" where
  \<comment> \<open>\<open>str.isspace\<close> and \<open>\s\<close> on ASCII: TAB, LF, VT, FF, CR, FS, GS, RS, US, space.\<close>
  "is_space c = (c \<in> set [CHR 0x09, CHR 0x0A, CHR 0x0B, CHR 0x0C, CHR 0x0D,
                            CHR 0x1C, CHR 0x1D, CHR 0x1E, CHR 0x1F, CHR 0x20])"

definition lstrip :: "string \<Rightarrow> string" where
  "lstrip s = dropWhile is_space s"

definition rstrip :: "string \<Rightarrow> string" where
  "rstrip s = rev (dropWhile is_space (rev s))"

definition strip :: "string \<Rightarrow> string" where
  \<comment> \<open>\<open>s.strip()\<close>\<close>
  "strip s = rstrip (lstrip s)"

fun split_on :: "char \<Rightarrow> string \<Rightarrow> string list" where
  \<comment> \<open>\<open>s.split(sep)\<close> for a one-character separator: always at least one field.\<close>
  "split_on sep [] = [[]]"
| "split_on sep (c # cs) =
     (if c = sep then [] # split_on sep cs
      else (case split_on sep cs of
              [] \<Rightarrow> [[c]]
            | f # fs \<Rightarrow> (c # f) # fs))"

fun join :: "string \<Rightarrow> string list \<Rightarrow> string" where
  \<comment> \<open>\<open>sep.join(parts)\<close>\<close>
  "join sep [] = []"
| "join sep [p] = p"
| "join sep (p # q # ps) = p @ sep @ join sep (q # ps)"

section \<open>Conversation memory (graph/memory.py)\<close>

record message =
  role :: string
  content :: string
  timestamp :: string

text \<open>
  \<open>ConversationMemory\<close>: \<open>redis_client\<close> is \<open>False\<close> when the constructor could not
  reach Redis (\<open>self.redis_client = None\<close>) and the in-process \<open>fallback_storage\<close> is
  used. \<open>redis_db\<close> is the content of the Redis server under the keys of this service
  (the JSON text of a record is identified with the message list it encodes).
  A Redis call may raise: \<open>redis_faults n\<close> says whether the \<open>n\<close>-th call made through
  the client raises, and \<open>redis_calls\<close> counts the calls made so far. Expiry of a
  record after its time-to-live is not modelled.
\<close>

record ConversationMemory =
  max_history :: int
  redis_client :: bool
  fallback_storage :: "string \<rightharpoonup> message list"
  redis_db :: "string \<rightharpoonup> message list"
  redis_faults :: "nat \<Rightarrow> bool"
  redis_calls :: nat

definition get_redis_key :: "string \<Rightarrow> string \<Rightarrow> string" where
  \<comment> \<open>\<open>f"chatbot:{user_id}:{session_id}"\<close>\<close>
  "get_redis_key user_id session_id = ''chatbot:'' @ user_id @ '':'' @ session_id"

definition redis_call :: "ConversationMemory \<Rightarrow> bool \<times> ConversationMemory" where
  \<comment> \<open>One call through the client: whether it succeeds, and the call counted.\<close>
  "redis_call m = (\<not> redis_faults m (redis_calls m), m\<lparr>redis_calls := Suc (redis_calls m)\<rparr>)"

definition load_state :: "ConversationMemory \<Rightarrow> string \<Rightarrow> message list \<times> ConversationMemory" where
  "load_state m redis_key =
     (if \<not> redis_client m then
        (case fallback_storage m redis_key of None \<Rightarrow> [] | Some ms \<Rightarrow> ms, m)
      else
        (let (ok, m') = redis_call m in
         if ok then (case redis_db m' redis_key of None \<Rightarrow> [] | Some ms \<Rightarrow> ms, m')
         else ([], m')))"

definition save_state :: "ConversationMemory \<Rightarrow> string \<Rightarrow> message list \<Rightarrow> ConversationMemory" where
  "save_state m redis_key messages =
     (if \<not> redis_client m then
        m\<lparr>fallback_storage := (fallback_storage m)(redis_key \<mapsto> messages)\<rparr>
      else
        (let (ok, m') = redis_call m in
         if ok then m'\<lparr>redis_db := (redis_db m')(redis_key \<mapsto> messages)\<rparr>
         else m'))"

definition add_message ::
  "ConversationMemory \<Rightarrow> string \<Rightarrow> string \<Rightarrow> string \<Rightarrow> string \<Rightarrow> string \<Rightarrow> ConversationMemory" where
  \<comment> \<open>The last argument is the value of \<open>datetime.utcnow().isoformat()\<close>.\<close>
  "add_message m user_id session_id rl cont now =
     (let redis_key = get_redis_key user_id session_id;
          (messages, m1) = load_state m redis_key;
          msg = \<lparr>role = rl, content = cont, timestamp = now\<rparr>;
          messages1 = messages @ [msg];
          messages2 = (if int (length messages1) > max_history m * 2
                       then py_slice_from (- (max_history m * 2)) messages1
                       else messages1)
      in save_state m1 redis_key messages2)"

definition get_history ::
  "ConversationMemory \<Rightarrow> string \<Rightarrow> string \<Rightarrow> (string \<times> string) list \<times> ConversationMemory" where
  \<comment> \<open>Each entry is reduced to its role and content.\<close>
  "get_history m user_id session_id =
     (let redis_key = get_redis_key user_id session_id;
          (messages, m1) = load_state m redis_key
      in (map (\<lambda>msg. (role msg, content msg)) messages, m1))"

definition get_formatted_history ::
  "ConversationMemory \<Rightarrow> string \<Rightarrow> string \<Rightarrow> string \<times> ConversationMemory" where
  "get_formatted_history m user_id session_id =
     (let (history, m1) = get_history m user_id session_id
      in if history = [] then ([], m1)
         else (join [CHR 0x0A]
                 (map (\<lambda>(r, c). (if r = ''user'' then ''User'' else ''Assistant'') @ '': '' @ c)
                      history), m1))"

definition clear_session :: "ConversationMemory \<Rightarrow> string \<Rightarrow> string \<Rightarrow> ConversationMemory" where
  "clear_session m user_id session_id =
     (let redis_key = get_redis_key user_id session_id in
      if \<not> redis_client m then
        m\<lparr>fallback_storage := (fallback_storage m)(redis_key := None)\<rparr>
      else
        (let (ok, m') = redis_call m in
         if ok then m'\<lparr>redis_db := (redis_db m')(redis_key := None)\<rparr>
         else m'))"

text \<open>The record held for a key by the backend in use, and a run of appends.\<close>

definition stored :: "ConversationMemory \<Rightarrow> string \<Rightarrow> message list" where
  "stored m k =
     (case (if redis_client m then redis_db m else fallback_storage m) k of
        None \<Rightarrow> [] | Some ms \<Rightarrow> ms)"

fun appends ::
  "ConversationMemory \<Rightarrow> (string \<times> string \<times> string \<times> string \<times> string) list \<Rightarrow> ConversationMemory" where
  "appends m [] = m"
| "appends m ((u, s, r, c, t) # ops) = appends (add_message m u s r c t) ops"

definition new_memory :: "int \<Rightarrow> ConversationMemory" where
  \<comment> \<open>A memory constructed while Redis is unreachable: empty in-process storage.\<close>
  "new_memory n =
     \<lparr>max_history = n, redis_client = False, fallback_storage = Map.empty,
      redis_db = Map.empty, redis_faults = (\<lambda>_. False), redis_calls = 0\<rparr>"

section \<open>Final sanitation pass (graph/build_graph.py)\<close>

definition nl :: char where
  "nl = CHR 0x0A"

definition lower_char :: "char \<Rightarrow> char" where
  \<comment> \<open>Case folding of \<open>re.IGNORECASE\<close> on ASCII letters.\<close>
  "lower_char c =
     (let n = (of_char c :: nat) in if 65 \<le> n \<and> n \<le> 90 then char_of (n + 32) else c)"

definition is_word :: "char \<Rightarrow> bool" where
  \<comment> \<open>\<open>\w\<close> on ASCII: letters, digits and the underscore.\<close>
  "is_word c =
     (let n = (of_char c :: nat)
      in (48 \<le> n \<and> n \<le> 57) \<or> (65 \<le> n \<and> n \<le> 90) \<or> (97 \<le> n \<and> n \<le> 122) \<or> n = 95)"

fun prefix_ci :: "string \<Rightarrow> string \<Rightarrow> bool" where
  \<comment> \<open>The lower-case pattern matches at the start of the text, ignoring case.\<close>
  "prefix_ci [] s = True"
| "prefix_ci (p # ps) [] = False"
| "prefix_ci (p # ps) (c # cs) = (lower_char c = p \<and> prefix_ci ps cs)"

definition label_at :: "string \<Rightarrow> bool" where
  \<comment> \<open>\<open>(Intent|Entity):\<close> matches at the start of the text.\<close>
  "label_at s = (prefix_ci ''intent:'' s \<or> prefix_ci ''entity:'' s)"

definition is_label_line :: "string \<Rightarrow> bool" where
  \<comment> \<open>\<open>re.match(r'^\s*(Intent|Entity):\s*', line, re.IGNORECASE)\<close>\<close>
  "is_label_line line = label_at (dropWhile is_space line)"

definition match_tail :: "string \<Rightarrow> nat option" where
  \<comment> \<open>The number of characters \<open>\s*[^\n]+\n?\<close> matches at the start of the text, if it
      matches. When the whitespace run reaches the end of the text, \<open>\s*\<close> backtracks to
      the last character of the run that is not a newline.\<close>
  "match_tail rest =
     (let ws = takeWhile is_space rest;
          r = dropWhile is_space rest
      in if r \<noteq> [] then
           (let line = takeWhile (\<lambda>c. c \<noteq> nl) r;
                after = dropWhile (\<lambda>c. c \<noteq> nl) r
            in Some (length ws + length line + (if after \<noteq> [] then 1 else 0)))
         else
           (let back = dropWhile (\<lambda>c. c = nl) (rev ws)
            in if back = [] then None
               else Some (length back + (if length back < length ws then 1 else 0))))"

function sub_labels :: "char option \<Rightarrow> string \<Rightarrow> string" where
  \<comment> \<open>\<open>re.sub(r'\b(Intent|Entity):\s*[^\n]+\n?', '', text, flags=re.IGNORECASE)\<close>,
      scanning from the left; the first argument is the character before the position.\<close>
  "sub_labels prev [] = []"
| "sub_labels prev (c # cs) =
     (if (case prev of None \<Rightarrow> True | Some p \<Rightarrow> \<not> is_word p) \<and> label_at (c # cs) then
        (case match_tail (drop 7 (c # cs)) of
           None \<Rightarrow> c # sub_labels (Some c) cs
         | Some n \<Rightarrow> sub_labels (Some (last (take (7 + n) (c # cs)))) (drop (7 + n) (c # cs)))
      else c # sub_labels (Some c) cs)"
  by pat_completeness auto
termination
  by (relation "measure (\<lambda>(prev, s). length s)") auto

function collapse_newlines :: "string \<Rightarrow> string" where
  \<comment> \<open>\<open>re.sub(r'\n{3,}', '\n\n', text)\<close>\<close>
  "collapse_newlines [] = []"
| "collapse_newlines (c # cs) =
     (if c = nl then
        (let run = takeWhile (\<lambda>x. x = nl) cs;
             rest = dropWhile (\<lambda>x. x = nl) cs
         in (if 2 \<le> length run then [nl, nl] else nl # run) @ collapse_newlines rest)
      else c # collapse_newlines cs)"
  by pat_completeness auto
termination
  by (relation "measure length") (auto simp: length_dropWhile_le less_Suc_eq_le)

definition clean_response :: "string \<Rightarrow> string" where
  "clean_response response =
     (if response = [] then response
      else
        (let lines = split_on nl response;
             cleaned_lines = filter (\<lambda>line. \<not> is_label_line line) lines;
             cleaned = strip (join [nl] cleaned_lines);
             cleaned1 = sub_labels None cleaned;
             cleaned2 = collapse_newlines cleaned1
         in strip cleaned2))"

section \<open>Streaming dispatcher (chatbot_service_sse.py)\<close>

fun replace_pair :: "char \<Rightarrow> string \<Rightarrow> string" where
  \<comment> \<open>\<open>text.replace(p + ' ', p + '|')\<close> for a one-character \<open>p\<close>.\<close>
  "replace_pair p [] = []"
| "replace_pair p [c] = [c]"
| "replace_pair p (c # d # cs) =
     (if c = p \<and> d = CHR '' '' then c # CHR ''|'' # replace_pair p cs
      else c # replace_pair p (d # cs))"

fun chunk_loop :: "nat \<Rightarrow> string \<Rightarrow> string list \<Rightarrow> string list" where
  \<comment> \<open>The loop over the sentences and the final \<open>yield\<close>; the second argument is
      \<open>current_chunk\<close>, the result the chunks yielded in order.\<close>
  "chunk_loop chunk_size current_chunk [] =
     (if strip current_chunk \<noteq> [] then [strip current_chunk] else [])"
| "chunk_loop chunk_size current_chunk (sentence # rest) =
     (let sentence1 = strip sentence in
      if sentence1 = [] then chunk_loop chunk_size current_chunk rest
      else if current_chunk \<noteq> [] \<and> py_len current_chunk + py_len sentence1 > chunk_size
      then current_chunk # chunk_loop chunk_size (sentence1 @ '' '') rest
      else chunk_loop chunk_size (current_chunk @ sentence1 @ '' '') rest)"

definition chunk_text :: "string \<Rightarrow> nat \<Rightarrow> string list" where
  "chunk_text text chunk_size =
     (if text = [] then []
      else
        (let sentences =
               split_on (CHR ''|'')
                 (replace_pair (CHR ''.'') (replace_pair (CHR ''!'') (replace_pair (CHR ''?'') text)))
         in chunk_loop chunk_size [] sentences))"

datatype event = Start | Keepalive | Chunk string | Done | Error string

datatype status = Success | Failure

text \<open>
  What one iteration of the polling loop observes. \<open>Finished q\<close>: \<open>worker.is_alive()\<close> is
  false and the result queue holds \<open>q\<close> (\<open>None\<close>: it is empty). \<open>Waiting\<close>: the worker is
  alive and \<open>result_queue.get(timeout=2.0)\<close> raises \<open>queue.Empty\<close>. \<open>Got st r\<close>: the worker
  is alive at the test and the \<open>get\<close> returns \<open>(st, r)\<close>. The worker puts
  \<open>('success', answer)\<close> or \<open>('error', str(e))\<close>. A schedule gives the observation of each
  iteration; every iteration that continues the loop has incremented \<open>keepalive_count\<close>,
  so the iteration number is \<open>keepalive_count\<close>.
\<close>

datatype tick = Finished "(status \<times> string) option" | Waiting | Got status string

definition no_response_text :: string where
  "no_response_text =
     ''I apologize, but I could not generate a response. Please try rephrasing your question.''"

definition timeout_text :: string where
  "timeout_text = ''Request timeout - please try again''"

function sse_loop :: "(nat \<Rightarrow> tick) \<Rightarrow> nat \<Rightarrow> event list" where
  "sse_loop sched keepalive_count =
     (case sched keepalive_count of
        Finished q \<Rightarrow>
          (case q of
             None \<Rightarrow> []
           | Some (st, result) \<Rightarrow>
               if st = Success \<and> result \<noteq> [] then map Chunk (chunk_text result 30) @ [Done]
               else if st = Failure then [Error result]
               else [])
      | Got st result \<Rightarrow>
          (if st = Failure then [Error result]
           else (if result \<noteq> [] \<and> strip result \<noteq> [] then map Chunk (chunk_text result 30)
                 else [Chunk no_response_text]) @ [Done])
      | Waiting \<Rightarrow>
          (let keepalive_count1 = keepalive_count + 1 in
           if keepalive_count1 \<le> 15 then Keepalive # sse_loop sched keepalive_count1
           else [Error timeout_text]))"
  by pat_completeness auto
termination
  by (relation "measure (\<lambda>(sched, k). 16 - k)") auto

definition generate_sse_response :: "(nat \<Rightarrow> tick) \<Rightarrow> string option \<Rightarrow> event list" where
  \<comment> \<open>The events yielded, in order. The second argument is \<open>Some (str e)\<close> when starting
      the worker thread raises \<open>e\<close>, which the outer handler reports.\<close>
  "generate_sse_response sched start_exc =
     Start # (case start_exc of Some e \<Rightarrow> [Error e] | None \<Rightarrow> sse_loop sched 0)"


section \<open>Settings and score validator (config/settings.py, retrieval/score_threshold.py)\<close>

definition SIMILARITY_THRESHOLD :: rat where
  "SIMILARITY_THRESHOLD = 50 / 100"

definition EXACT_MATCH_THRESHOLD :: rat where
  "EXACT_MATCH_THRESHOLD = 90 / 100"

definition TOP_K_RESULTS :: nat where
  "TOP_K_RESULTS = 5"

record doc =
  doc_content :: string
  metadata :: "string \<rightharpoonup> string"
  similarity_score :: rat

definition ScoreThreshold_init :: "rat option \<Rightarrow> rat" where
  \<comment> \<open>\<open>ScoreThreshold.__init__(self, threshold: float = 0.55)\<close>: the value of
      \<open>self.threshold\<close>; \<open>None\<close> stands for a call without the argument.\<close>
  "ScoreThreshold_init threshold = (case threshold of None \<Rightarrow> 55 / 100 | Some t \<Rightarrow> t)"

definition filter_by_threshold :: "rat \<Rightarrow> doc list \<Rightarrow> doc list" where
  "filter_by_threshold threshold retrieved_docs =
     (if retrieved_docs = [] then []
      else filter (\<lambda>d. similarity_score d \<ge> threshold) retrieved_docs)"

definition validate_retrieval :: "rat \<Rightarrow> doc list \<Rightarrow> bool" where
  "validate_retrieval threshold retrieved_docs =
     (length (filter_by_threshold threshold retrieved_docs) > 0)"

section \<open>Retriever (retrieval/retriever.py)\<close>

datatype py_exception = Timeout | RequestException | KeyError | OtherException

type_synonym vector = "rat list"

record point =
  pt_vector :: vector
  pt_payload :: "string \<rightharpoonup> string"

record scored_point =
  payload :: "string \<rightharpoonup> string"
  score :: rat

text \<open>
  The retriever with its collaborators. The query processor, the embedding model and the
  search of the vector index are taken as given functions that return a value or raise;
  the search sees the points of the collection. \<open>upsert_raises\<close> says whether building and
  writing a point raises. \<open>collection\<close> is the content of the Qdrant collection (point ids
  are fresh UUIDs, so an upsert adds a point). \<open>searches\<close> counts the \<open>query_points\<close>
  calls made and \<open>ingest_log\<close> records the arguments of the \<open>ingest_qa_pair\<close> calls.
\<close>

record Retriever =
  top_k :: nat
  process_query :: "string \<Rightarrow> py_exception + (string \<times> string)"
  generate_embedding :: "string \<Rightarrow> py_exception + vector"
  query_points ::
    "point list \<Rightarrow> vector \<Rightarrow> nat \<Rightarrow> (string \<times> string) list option
       \<Rightarrow> py_exception + scored_point list"
  upsert_raises :: "point list \<Rightarrow> point \<Rightarrow> bool"
  collection :: "point list"
  searches :: nat
  ingest_log :: "(string \<times> string) list"

definition format_result :: "scored_point \<Rightarrow> doc" where
  \<comment> \<open>\<open>payload.pop('content', '')\<close>; the remaining fields are the metadata.\<close>
  "format_result res =
     \<lparr>doc_content = (case payload res ''content'' of None \<Rightarrow> [] | Some c \<Rightarrow> c),
      metadata = (payload res)(''content'' := None),
      similarity_score = score res\<rparr>"

definition retrieve_try ::
  "Retriever \<Rightarrow> string \<Rightarrow> nat \<Rightarrow> (string \<times> string) list option
     \<Rightarrow> (py_exception + doc list) \<times> Retriever" where
  \<comment> \<open>The body of the \<open>try\<close> block of \<open>retrieve\<close>; the pair returned by the query
      processor is \<open>(normalized, keyword_query)\<close>.\<close>
  "retrieve_try r query k filter_by =
     (case process_query r query of
        Inl e \<Rightarrow> (Inl e, r)
      | Inr (normalized_query, keyword_query) \<Rightarrow>
          (let search_query = (if keyword_query \<noteq> [] then keyword_query else normalized_query) in
           case generate_embedding r search_query of
             Inl e \<Rightarrow> (Inl e, r)
           | Inr query_embedding \<Rightarrow>
               (let query_filter =
                      (case filter_by of None \<Rightarrow> None
                       | Some f \<Rightarrow> if f = [] then None else Some f);
                    r1 = r\<lparr>searches := Suc (searches r)\<rparr>
                in case query_points r (collection r) query_embedding k query_filter of
                     Inl e \<Rightarrow> (Inl e, r1)
                   | Inr search_results \<Rightarrow> (Inr (map format_result search_results), r1))))"

definition retrieve ::
  "Retriever \<Rightarrow> string \<Rightarrow> nat option \<Rightarrow> (string \<times> string) list option
     \<Rightarrow> doc list \<times> Retriever" where
  \<comment> \<open>Every statement that can raise lies in the \<open>try\<close> block, whose handler returns
      the empty list: the call has a list as its value in every branch.\<close>
  "retrieve r query top_k_arg filter_by =
     (if query = [] then ([], r)
      else
        (let k = (case top_k_arg of Some n \<Rightarrow> n | None \<Rightarrow> top_k r) in
         case retrieve_try r query k filter_by of
           (Inl e, r1) \<Rightarrow> ([], r1)
         | (Inr retrieved_docs, r1) \<Rightarrow> (retrieved_docs, r1)))"

definition format_chunk :: "doc \<Rightarrow> string" where
  "format_chunk d =
     (let company = (case metadata d ''company'' of None \<Rightarrow> ''Unknown'' | Some v \<Rightarrow> v);
          doc_type = (case metadata d ''document_type'' of None \<Rightarrow> ''Unknown'' | Some v \<Rightarrow> v);
          source = (case metadata d ''source'' of None \<Rightarrow> ''Unknown'' | Some v \<Rightarrow> v)
      in ''[Company]: '' @ company @ [nl] @ ''[Document Type]: '' @ doc_type @ [nl]
         @ ''[Source]: '' @ source @ [nl, nl] @ ''Content:'' @ [nl] @ doc_content d @ [nl])"

definition format_retrieved_context :: "doc list \<Rightarrow> string" where
  "format_retrieved_context retrieved_docs =
     (if retrieved_docs = [] then []
      else join ([nl] @ ''---'' @ [nl]) (map format_chunk retrieved_docs))"

definition qa_payload :: "string \<Rightarrow> string \<Rightarrow> string \<rightharpoonup> string" where
  \<comment> \<open>The payload of a cached question and answer: the content and the metadata.\<close>
  "qa_payload question answer =
     [''content'' \<mapsto> ''Question: '' @ question @ [nl, nl] @ ''Answer: '' @ answer,
      ''document_type'' \<mapsto> ''Generated Q&A'',
      ''company'' \<mapsto> ''General Knowledge'',
      ''source'' \<mapsto> ''Gemini LLM'',
      ''question'' \<mapsto> question,
      ''answer'' \<mapsto> answer]"

definition ingest_qa_pair :: "Retriever \<Rightarrow> string \<Rightarrow> string \<Rightarrow> rat \<Rightarrow> bool \<times> Retriever" where
  "ingest_qa_pair r0 question answer similarity_threshold =
     (let r = r0\<lparr>ingest_log := ingest_log r0 @ [(question, answer)]\<rparr> in
      if question = [] \<or> answer = [] then (False, r)
      else
        (case generate_embedding r question of
           Inl e \<Rightarrow> (False, r)
         | Inr embedding \<Rightarrow>
             (let r1 = r\<lparr>searches := Suc (searches r)\<rparr>;
                  duplicate =
                    (case query_points r (collection r) embedding 5
                            (Some [(''document_type'', ''Generated Q&A'')]) of
                       Inl search_error \<Rightarrow> False
                     | Inr search_results \<Rightarrow>
                         list_ex (\<lambda>res. score res \<ge> similarity_threshold) search_results)
              in if duplicate then (True, r1)
                 else
                   (let pt = \<lparr>pt_vector = embedding, pt_payload = qa_payload question answer\<rparr>
                    in if upsert_raises r1 (collection r1) pt then (False, r1)
                       else (True, r1\<lparr>collection := collection r1 @ [pt]\<rparr>)))))"

definition DEDUP_THRESHOLD :: rat where
  \<comment> \<open>The default of \<open>similarity_threshold\<close> in \<open>ingest_qa_pair\<close>.\<close>
  "DEDUP_THRESHOLD = 95 / 100"

section \<open>Generative model client (llm/gemini_llm.py)\<close>

datatype part = Part (text_of: "string option")

datatype content_obj = Content (parts: "part list option")

datatype candidate = Candidate (content_of: "content_obj option") (finishReason: "string option")

text \<open>
  The outcome of \<open>requests.post\<close>: it raises, or returns a response with a status code
  whose \<open>json()\<close> raises or returns a result. A result is falsy (\<open>Blank\<close>), or a dictionary
  with or without the key \<open>candidates\<close>; optional keys are options. Values of other
  shapes make the code raise and are covered by the raising outcomes.
\<close>

datatype api_result = Blank | Result "candidate list option"

datatype body = Body_raises py_exception | Body api_result

datatype post_outcome = Post_raises py_exception | Response nat body

record GeminiLLM =
  post :: "string \<Rightarrow> post_outcome"
  system_prompt :: string
  prompts :: "string list"

definition http_error_text :: string where
  "http_error_text =
     ''Oops! I'm having trouble connecting to my knowledge base right now. ''
     @ [CHR 0xF0, CHR 0x9F, CHR 0xA4, CHR 0x94] @ '' Could you try asking again in a moment?''"

definition blank_response_text :: string where
  "blank_response_text =
     ''Hmm, I got a blank response. Let me try to help you differently - could you rephrase your question?''"

definition missing_candidates_text :: string where
  "missing_candidates_text =
     ''I'm having a bit of trouble processing that right now. ''
     @ [CHR 0xF0, CHR 0x9F, CHR 0x98, CHR 0x85] @ '' Mind trying a different question?''"

definition missing_content_text :: string where
  "missing_content_text =
     ''I encountered an issue processing that. Could you try rephrasing your question?''"

definition max_tokens_text :: string where
  "max_tokens_text = ''The response was too long. Could you ask a more specific question?''"

definition safety_text :: string where
  "safety_text =
     ''I cannot provide that information due to safety guidelines. Please rephrase your question.''"

definition missing_parts_text :: string where
  "missing_parts_text =
     ''I encountered an issue generating a response. Could you try rephrasing your question?''"

definition empty_parts_text :: string where
  "empty_parts_text =
     ''I got your question but couldn't generate a response. Could you try asking differently?''"

definition empty_text_text :: string where
  "empty_text_text =
     ''I got your question but couldn't generate a good answer. ''
     @ [CHR 0xF0, CHR 0x9F, CHR 0xA4, CHR 0xB7] @ '' Want to try asking something else?''"

definition timeout_apology :: string where
  "timeout_apology =
     ''Whoa, that's taking too long! '' @ [CHR 0xE2, CHR 0x8F, CHR 0xB0]
     @ '' The connection timed out. Mind trying again?''"

definition network_text :: string where
  "network_text =
     ''I'm having network issues connecting to my brain! ''
     @ [CHR 0xF0, CHR 0x9F, CHR 0x8C, CHR 0x90] @ '' Try again in a sec?''"

definition key_error_text :: string where
  "key_error_text =
     ''Got a weird response format! '' @ [CHR 0xF0, CHR 0x9F, CHR 0xA4, CHR 0xA8]
     @ '' Let me know if this keeps happening, but for now, try another question?''"

definition unexpected_text :: string where
  "unexpected_text =
     ''Something unexpected happened! '' @ [CHR 0xF0, CHR 0x9F, CHR 0x98, CHR 0xAC]
     @ '' But don't worry - try asking me something else!''"

fun handler :: "py_exception \<Rightarrow> string" where
  \<comment> \<open>The \<open>except\<close> clauses of \<open>_call_api\<close>, in their order.\<close>
  "handler Timeout = timeout_apology"
| "handler RequestException = network_text"
| "handler KeyError = key_error_text"
| "handler OtherException = unexpected_text"

definition parse_result :: "api_result \<Rightarrow> string" where
  \<comment> \<open>The checks of \<open>_call_api\<close> on the decoded result.\<close>
  "parse_result result =
     (case result of
        Blank \<Rightarrow> blank_response_text
      | Result None \<Rightarrow> missing_candidates_text
      | Result (Some []) \<Rightarrow> missing_candidates_text
      | Result (Some (cand # _)) \<Rightarrow>
          (case content_of cand of
             None \<Rightarrow> missing_content_text
           | Some cont \<Rightarrow>
               (case parts cont of
                  None \<Rightarrow>
                    (let finish_reason =
                           (case finishReason cand of None \<Rightarrow> ''UNKNOWN'' | Some f \<Rightarrow> f)
                     in if finish_reason = ''MAX_TOKENS'' then max_tokens_text
                        else if finish_reason = ''SAFETY'' then safety_text
                        else missing_parts_text)
                | Some [] \<Rightarrow> empty_parts_text
                | Some (p # _) \<Rightarrow>
                    (let txt = strip (case text_of p of None \<Rightarrow> [] | Some t \<Rightarrow> t)
                     in if txt = [] then empty_text_text else txt))))"

definition call_api :: "GeminiLLM \<Rightarrow> string \<Rightarrow> string \<times> GeminiLLM" where
  \<comment> \<open>\<open>_call_api\<close>: the request is recorded in \<open>prompts\<close>.\<close>
  "call_api llm prompt =
     (let llm1 = llm\<lparr>prompts := prompts llm @ [prompt]\<rparr> in
      case post llm prompt of
        Post_raises e \<Rightarrow> (handler e, llm1)
      | Response status_code b \<Rightarrow>
          if status_code \<noteq> 200 then (http_error_text, llm1)
          else (case b of
                  Body_raises e \<Rightarrow> (handler e, llm1)
                | Body result \<Rightarrow> (parse_result result, llm1)))"

definition generate_response :: "GeminiLLM \<Rightarrow> string \<Rightarrow> string \<Rightarrow> string \<times> GeminiLLM" where
  "generate_response llm question conversation_history =
     (let prompt =
        (if conversation_history \<noteq> [] then
           system_prompt llm @ [nl, nl] @ conversation_history @ [nl, nl]
           @ ''User Question: '' @ question @ [nl, nl] @ ''Assistant:''
         else
           system_prompt llm @ [nl, nl] @ ''User Question: '' @ question @ [nl, nl]
           @ ''Assistant:'')
      in call_api llm prompt)"

definition generate_rag_answer ::
  "GeminiLLM \<Rightarrow> string \<Rightarrow> string \<Rightarrow> string \<Rightarrow> string \<times> GeminiLLM" where
  "generate_rag_answer llm context question conversation_history =
     (let prompt =
        (if conversation_history \<noteq> [] then
           system_prompt llm @ [nl, nl] @ conversation_history @ [nl, nl]
           @ ''Relevant Context:'' @ [nl] @ context @ [nl, nl]
           @ ''User Question: '' @ question @ [nl, nl] @ ''Assistant:''
         else
           system_prompt llm @ [nl, nl] @ ''Relevant Context:'' @ [nl] @ context @ [nl, nl]
           @ ''User Question: '' @ question @ [nl, nl] @ ''Assistant:'')
      in call_api llm prompt)"


section \<open>Pipeline (graph/state.py, graph/nodes.py, graph/build_graph.py, main.py)\<close>

record ChatbotState =
  user_id :: string
  session_id :: string
  query :: string
  conversation_history :: "(string \<times> string) list"
  formatted_history :: string
  intent :: "string option"
  pipeline :: "string option"
  retrieved_docs :: "doc list"
  retrieval_valid :: bool
  filtered_docs :: "doc list"
  gemini_response :: "string option"
  answer :: "string option"

text \<open>
  The components held by \<open>GraphNodes\<close>: the retriever, the threshold of the score
  validator, the client of the generative model, the intent classifier of the routing
  rules (a given function: its label does not choose the branch) and the memory.
\<close>

record Components =
  retriever :: Retriever
  score_threshold :: rat
  gemini_llm :: GeminiLLM
  classify_intent :: "string \<Rightarrow> string"
  memory :: ConversationMemory

definition route_node :: "Components \<Rightarrow> ChatbotState \<Rightarrow> Components \<times> ChatbotState" where
  \<comment> \<open>\<open>route_query\<close> returns the classified intent and always the pipeline \<open>RAG\<close>.\<close>
  "route_node c state =
     (c, state\<lparr>intent := Some (classify_intent c (query state)), pipeline := Some ''RAG''\<rparr>)"

definition should_use_rag :: "ChatbotState \<Rightarrow> string" where
  "should_use_rag state = (if pipeline state = Some ''RAG'' then ''rag_path'' else ''external_path'')"

definition retrieve_node :: "Components \<Rightarrow> ChatbotState \<Rightarrow> Components \<times> ChatbotState" where
  "retrieve_node c state =
     (let (docs, r1) = retrieve (retriever c) (query state) None None
      in (c\<lparr>retriever := r1\<rparr>, state\<lparr>retrieved_docs := docs\<rparr>))"

definition validate_node :: "Components \<Rightarrow> ChatbotState \<Rightarrow> Components \<times> ChatbotState" where
  "validate_node c state =
     (let is_valid = validate_retrieval (score_threshold c) (retrieved_docs state);
          state1 = state\<lparr>retrieval_valid := is_valid\<rparr>
      in if is_valid
         then (c, state1\<lparr>filtered_docs :=
                           filter_by_threshold (score_threshold c) (retrieved_docs state)\<rparr>)
         else (c, state1\<lparr>filtered_docs := []\<rparr>))"

fun cached_answer :: "doc list \<Rightarrow> string option" where
  \<comment> \<open>The loop of \<open>rag_answer_node\<close> over the filtered documents: the answer it returns
      directly, if any.\<close>
  "cached_answer [] = None"
| "cached_answer (d # ds) =
     (let similarity = similarity_score d;
          doc_type = (case metadata d ''document_type'' of None \<Rightarrow> [] | Some t \<Rightarrow> t)
      in if doc_type = ''Generated Q&A'' \<and> similarity \<ge> EXACT_MATCH_THRESHOLD then
           (let stored_answer = (case metadata d ''answer'' of None \<Rightarrow> [] | Some a \<Rightarrow> a)
            in if stored_answer \<noteq> [] then Some stored_answer else cached_answer ds)
         else cached_answer ds)"

definition external_knowledge_node ::
  "Components \<Rightarrow> ChatbotState \<Rightarrow> Components \<times> ChatbotState" where
  \<comment> \<open>\<open>ingest_qa_pair\<close> handles its own exceptions and returns a Boolean, which is only
      printed.\<close>
  "external_knowledge_node c state =
     (let (response, llm1) =
            generate_response (gemini_llm c) (query state) (formatted_history state);
          state1 = state\<lparr>answer := Some response\<rparr>;
          (success, r1) = ingest_qa_pair (retriever c) (query state) response DEDUP_THRESHOLD
      in (c\<lparr>gemini_llm := llm1, retriever := r1\<rparr>, state1))"

definition rag_answer_node :: "Components \<Rightarrow> ChatbotState \<Rightarrow> Components \<times> ChatbotState" where
  "rag_answer_node c state =
     (if \<not> retrieval_valid state then external_knowledge_node c state
      else
        (case cached_answer (filtered_docs state) of
           Some a \<Rightarrow> (c, state\<lparr>answer := Some a\<rparr>)
         | None \<Rightarrow>
             (let context = format_retrieved_context (filtered_docs state);
                  (a, llm1) = generate_rag_answer (gemini_llm c) context (query state)
                                (formatted_history state)
              in (c\<lparr>gemini_llm := llm1\<rparr>, state\<lparr>answer := Some a\<rparr>))))"

definition memory_node ::
  "Components \<Rightarrow> ChatbotState \<Rightarrow> string \<times> string \<Rightarrow> Components \<times> ChatbotState" where
  \<comment> \<open>The pair gives the timestamps of the two entries.\<close>
  "memory_node c state now =
     (case answer state of
        None \<Rightarrow> (c, state)
      | Some a \<Rightarrow>
          if query state \<noteq> [] \<and> a \<noteq> [] then
            (let m1 = add_message (memory c) (user_id state) (session_id state) ''user''
                        (query state) (fst now);
                 m2 = add_message m1 (user_id state) (session_id state) ''assistant'' a (snd now)
             in (c\<lparr>memory := m2\<rparr>, state))
          else (c, state))"

definition invoke :: "Components \<Rightarrow> ChatbotState \<Rightarrow> string \<times> string \<Rightarrow> Components \<times> ChatbotState" where
  \<comment> \<open>The compiled graph: the nodes in the order of the edges.\<close>
  "invoke c state now =
     (let (c1, state1) = route_node c state in
      if should_use_rag state1 = ''rag_path'' then
        (let (c2, state2) = retrieve_node c1 state1;
             (c3, state3) = validate_node c2 state2;
             (c4, state4) = rag_answer_node c3 state3
         in memory_node c4 state4 now)
      else
        (let (c2, state2) = external_knowledge_node c1 state1
         in memory_node c2 state2 now))"

definition execute ::
  "Components \<Rightarrow> string \<Rightarrow> string \<Rightarrow> string \<Rightarrow> string \<times> string
     \<Rightarrow> string option \<times> Components" where
  \<comment> \<open>The state holds the key \<open>answer\<close> from the start, so the default of the final
      \<open>get\<close> is not used; \<open>_clean_response\<close> returns \<open>None\<close> unchanged.\<close>
  "execute c q uid sid now =
     (let (history, m1) = get_history (memory c) uid sid;
          (formatted, m2) = get_formatted_history m1 uid sid;
          initial_state =
            \<lparr>user_id = uid, session_id = sid, query = q,
             conversation_history = history, formatted_history = formatted,
             intent = None, pipeline = None, retrieved_docs = [],
             retrieval_valid = False, filtered_docs = [],
             gemini_response = None, answer = None\<rparr>;
          (c1, final_state) = invoke (c\<lparr>memory := m2\<rparr>) initial_state now
      in (map_option clean_response (answer final_state), c1))"

definition chatbot_query ::
  "Components \<Rightarrow> string \<Rightarrow> string \<Rightarrow> string \<Rightarrow> string \<times> string
     \<Rightarrow> string option \<times> Components" where
  \<comment> \<open>\<open>RAGChatbot.query\<close>\<close>
  "chatbot_query c user_query uid sid now =
     (if user_query = [] \<or> strip user_query = [] then (Some ''Please provide a valid question.'', c)
      else if uid = [] \<or> sid = [] then (Some ''User ID and session ID are required.'', c)
      else execute c user_query uid sid now)"

definition new_components :: "Retriever \<Rightarrow> GeminiLLM \<Rightarrow> (string \<Rightarrow> string) \<Rightarrow> ConversationMemory \<Rightarrow> Components" where
  \<comment> \<open>\<open>RAGChatbot._initialize_components\<close>: the validator is built with the configured
      \<open>similarity_threshold\<close>.\<close>
  "new_components r llm classify m =
     \<lparr>retriever = r, score_threshold = ScoreThreshold_init (Some SIMILARITY_THRESHOLD),
      gemini_llm = llm, classify_intent = classify, memory = m\<rparr>"


section \<open>Auxiliary notions and sample data\<close>

text \<open>
  A sample index: the search returns, for the points that satisfy the filter, score 1 when
  the vector equals the query vector and 0 otherwise; the sample embedding is the length
  of the text.
\<close>


definition demo_search ::
  "point list \<Rightarrow> vector \<Rightarrow> nat \<Rightarrow> (string \<times> string) list option \<Rightarrow> py_exception + scored_point list" where
  "demo_search pts v k flt =
     Inr (take k (map (\<lambda>p. \<lparr>payload = pt_payload p, score = (if pt_vector p = v then 1 else 0)\<rparr>)
            (filter (\<lambda>p. case flt of None \<Rightarrow> True
                           | Some f \<Rightarrow> list_all (\<lambda>(key, val). pt_payload p key = Some val) f) pts)))"

definition demo_retriever :: Retriever where
  "demo_retriever =
     \<lparr>top_k = TOP_K_RESULTS,
      process_query = (\<lambda>q. Inr (q, q)),
      generate_embedding = (\<lambda>q. Inr [rat_of_nat (length q)]),
      query_points = demo_search,
      upsert_raises = (\<lambda>pts p. False),
      collection = [],
      searches = 0,
      ingest_log = []\<rparr>"

definition demo_question :: string where "demo_question = ''What is an internship?''"
definition demo_answer :: string where "demo_answer = ''A short period of supervised work.''"
definition demo_point :: point where
  "demo_point = \<lparr>pt_vector = [22], pt_payload = qa_payload demo_question demo_answer\<rparr>"
definition demo_retriever1 :: Retriever where
  "demo_retriever1 = demo_retriever\<lparr>collection := [demo_point], searches := 1,
      ingest_log := [(demo_question, demo_answer)]\<rparr>"


definition reply :: "string \<Rightarrow> post_outcome" where
  "reply t = Response 200 (Body (Result (Some [Candidate (Some (Content (Some [Part (Some t)]))) None])))"

definition demo_llm :: GeminiLLM where
  "demo_llm = \<lparr>post = (\<lambda>p. reply '' An internship is a short job. ''),
               system_prompt = ''You are a helpful assistant.'', prompts = []\<rparr>"

definition demo_components :: Components where
  "demo_components =
     new_components demo_retriever1 demo_llm (\<lambda>q. ''GENERAL_EDUCATION'') (new_memory 10)"

definition labelled_answer :: string where
  "labelled_answer = ''Intent: definition'' @ [nl] @ ''A short job.''"

definition labelled_components :: Components where
  "labelled_components =
     new_components
       (demo_retriever\<lparr>collection :=
          [\<lparr>pt_vector = [22], pt_payload = qa_payload demo_question labelled_answer\<rparr>]\<rparr>)
       demo_llm (\<lambda>q. ''GENERAL_EDUCATION'') (new_memory 10)"

definition label_only_components :: Components where
  "label_only_components =
     new_components demo_retriever
       (demo_llm\<lparr>post := (\<lambda>p. reply ''Intent: greeting'')\<rparr>)
       (\<lambda>q. ''GENERAL_EDUCATION'') (new_memory 10)"

text \<open>
  A cache hit is a document of the generated kind whose score reaches the exact-match
  threshold and whose stored answer is not empty; \<open>history_text\<close> is the formatted history
  that \<open>execute\<close> puts into the state.
\<close>

definition is_cache_hit :: "doc \<Rightarrow> bool" where
  "is_cache_hit d =
     (metadata d ''document_type'' = Some ''Generated Q&A''
      \<and> similarity_score d \<ge> EXACT_MATCH_THRESHOLD
      \<and> (case metadata d ''answer'' of None \<Rightarrow> False | Some a \<Rightarrow> a \<noteq> []))"


definition history_text :: "Components \<Rightarrow> string \<Rightarrow> string \<Rightarrow> string" where
  "history_text c uid sid =
     fst (get_formatted_history (snd (get_history (memory c) uid sid)) uid sid)"


text \<open>The apology strings of \<open>_call_api\<close>, and a pipeline whose generative model times out.\<close>

definition apologies :: "string list" where
  "apologies =
     [http_error_text, blank_response_text, missing_candidates_text, missing_content_text,
      max_tokens_text, safety_text, missing_parts_text, empty_parts_text, empty_text_text,
      timeout_apology, network_text, key_error_text, unexpected_text]"

definition down_components :: Components where
  "down_components =
     new_components demo_retriever1 (demo_llm\<lparr>post := (\<lambda>p. Post_raises Timeout)\<rparr>)
       (\<lambda>q. ''GENERAL_EDUCATION'') (new_memory 10)"

text \<open>Sample documents and a state whose retrieval was found not valid.\<close>

definition borderline_doc :: doc where
  "borderline_doc = \<lparr>doc_content = ''Stipend details'', metadata = [''company'' \<mapsto> ''Google''],
                      similarity_score = 52 / 100\<rparr>"

definition hit_doc :: doc where
  "hit_doc = \<lparr>doc_content = ''Question: '' @ demo_question @ [nl, nl] @ ''Answer: '' @ demo_answer,
               metadata = (qa_payload demo_question demo_answer)(''content'' := None),
               similarity_score = 1\<rparr>"

definition demo_state :: ChatbotState where
  "demo_state =
     \<lparr>user_id = ''u1'', session_id = ''s1'', query = ''What is the stipend?'',
      conversation_history = [], formatted_history = [],
      intent = Some ''COMPANY_INTERNSHIP'', pipeline = Some ''RAG'',
      retrieved_docs = [borderline_doc], retrieval_valid = False, filtered_docs = [],
      gemini_response = None, answer = None\<rparr>"







definition late_empty_schedule :: "nat \<Rightarrow> tick" where
  \<comment> \<open>The first poll times out; the worker then ends with an empty answer before the
      next test of the loop.\<close>
  "late_empty_schedule i = (if i = 0 then Waiting else Finished (Some (Success, [])))"





definition lastn :: "nat \<Rightarrow> 'a list \<Rightarrow> 'a list" where
  \<comment> \<open>The most recent \<open>n\<close> entries of a history.\<close>
  "lastn n xs = drop (length xs - n) xs"

definition three_turns :: "(string \<times> string \<times> string \<times> string \<times> string) list" where
  "three_turns =
     [(''u1'', ''s1'', ''user'', ''q1'', ''t1''),
      (''u1'', ''s1'', ''assistant'', ''a1'', ''t2''),
      (''u1'', ''s1'', ''user'', ''q2'', ''t3'')]"

section \<open>Properties of the conversation memory\<close>

lemma stored_add_message_other:
  "k \<noteq> get_redis_key u s \<Longrightarrow> stored (add_message m u s r c t) k = stored m k"
  by (auto simp: add_message_def stored_def load_state_def save_state_def redis_call_def Let_def split: prod.splits option.splits if_splits)

lemma add_message_max_history [simp]: "max_history (add_message m u s r c t) = max_history m"
  by (auto simp: add_message_def load_state_def save_state_def redis_call_def Let_def split: prod.splits option.splits if_splits)

lemma stored_add_message_same_len:
  assumes "1 \<le> max_history m" "length (stored m (get_redis_key u s)) \<le> nat (2 * max_history m)"
  shows "length (stored (add_message m u s r c t) (get_redis_key u s)) \<le> nat (2 * max_history m)"
  using assms
  by (auto simp: add_message_def stored_def load_state_def save_state_def redis_call_def Let_def py_slice_from_def split: prod.splits option.splits if_splits)

lemma trim_lastn:
  assumes "1 \<le> n"
  shows "(if int (length xs) > n * 2 then py_slice_from (- (n * 2)) xs else xs) = lastn (nat (2 * n)) xs"
proof (cases "int (length xs) > n * 2")
  case True
  have "nat (int (length xs) + - (n * 2)) = length xs - nat (2 * n)" using assms by linarith
  moreover have "max 0 (int (length xs) + - (n * 2)) = int (length xs) + - (n * 2)" using True by simp
  ultimately show ?thesis using True assms by (simp add: py_slice_from_def lastn_def Let_def)
next
  case False
  then have "length xs - nat (2 * n) = 0" using assms by linarith
  then show ?thesis using False by (simp add: lastn_def)
qed

lemma stored_add_message_fifo:
  assumes "1 \<le> max_history m" "\<not> redis_client m \<or> (\<not> redis_faults m (redis_calls m) \<and> \<not> redis_faults m (Suc (redis_calls m)))"
  shows "stored (add_message m u s r c t) (get_redis_key u s) = lastn (nat (2 * max_history m)) (stored m (get_redis_key u s) @ [\<lparr>role = r, content = c, timestamp = t\<rparr>])"
proof -
  let ?k = "get_redis_key u s"
  let ?xs = "stored m ?k @ [\<lparr>role = r, content = c, timestamp = t\<rparr>]"
  let ?trim = "(if int (length ?xs) > max_history m * 2 then py_slice_from (- (max_history m * 2)) ?xs else ?xs)"
  have "stored (add_message m u s r c t) ?k = ?trim"
    using assms(2)
    by (auto simp: add_message_def stored_def load_state_def save_state_def redis_call_def Let_def split: option.splits)
  then show ?thesis using trim_lastn[OF assms(1), of ?xs] by simp
qed

lemma appends_bound:
  assumes "1 \<le> max_history m" "\<forall>k. length (stored m k) \<le> nat (2 * max_history m)"
  shows "\<forall>k. length (stored (appends m ops) k) \<le> nat (2 * max_history m)"
  using assms
proof (induction ops arbitrary: m)
  case Nil then show ?case by simp
next
  case (Cons op ops)
  obtain u s r c t where op: "op = (u, s, r, c, t)" by (cases op) auto
  let ?m = "add_message m u s r c t"
  have "\<forall>k. length (stored ?m k) \<le> nat (2 * max_history m)"
  proof
    fix k show "length (stored ?m k) \<le> nat (2 * max_history m)"
    proof (cases "k = get_redis_key u s")
      case True then show ?thesis using stored_add_message_same_len[of m u s] Cons.prems by simp
    next
      case False then show ?thesis using stored_add_message_other[of k u s m] Cons.prems by simp
    qed
  qed
  then show ?case using Cons.IH[of ?m] Cons.prems op by simp
qed


text \<open>
  C4 (as amended). With \<open>max_history \<ge> 1\<close>: if every stored history holds at most
  \<open>2 * max_history\<close> entries, then so does every stored history after any sequence of
  appends, whatever the Redis faults; and an append whose load and save take effect stores
  exactly the most recent \<open>2 * max_history\<close> entries of the old history extended by the
  new message, the oldest entries being the ones dropped. With \<open>max_history = 0\<close> the limit
  is disabled (config/settings.py): such an append keeps every entry.
\<close>

theorem add_message_history_bounded_fifo:
  "(1 \<le> max_history m \<and> (\<forall>k. length (stored m k) \<le> nat (2 * max_history m))
      \<longrightarrow> (\<forall>k. length (stored (appends m ops) k) \<le> nat (2 * max_history m)))
   \<and> (1 \<le> max_history m \<and>
        (\<not> redis_client m \<or>
         (\<not> redis_faults m (redis_calls m) \<and> \<not> redis_faults m (Suc (redis_calls m))))
      \<longrightarrow> stored (add_message m u s r c t) (get_redis_key u s)
            = lastn (nat (2 * max_history m))
                (stored m (get_redis_key u s) @ [\<lparr>role = r, content = c, timestamp = t\<rparr>])
          \<and> length (stored (add_message m u s r c t) (get_redis_key u s))
              \<le> nat (2 * max_history m))
   \<and> (max_history m = 0 \<and>
        (\<not> redis_client m \<or>
         (\<not> redis_faults m (redis_calls m) \<and> \<not> redis_faults m (Suc (redis_calls m))))
      \<longrightarrow> stored (add_message m u s r c t) (get_redis_key u s)
            = stored m (get_redis_key u s) @ [\<lparr>role = r, content = c, timestamp = t\<rparr>])"
proof (intro conjI impI)
  assume "1 \<le> max_history m \<and> (\<forall>k. length (stored m k) \<le> nat (2 * max_history m))"
  then show "\<forall>k. length (stored (appends m ops) k) \<le> nat (2 * max_history m)"
    using appends_bound by blast
next
  assume h: "1 \<le> max_history m \<and>
        (\<not> redis_client m \<or>
         (\<not> redis_faults m (redis_calls m) \<and> \<not> redis_faults m (Suc (redis_calls m))))"
  then show eq: "stored (add_message m u s r c t) (get_redis_key u s)
            = lastn (nat (2 * max_history m))
                (stored m (get_redis_key u s) @ [\<lparr>role = r, content = c, timestamp = t\<rparr>])"
    using stored_add_message_fifo by blast
  show "length (stored (add_message m u s r c t) (get_redis_key u s)) \<le> nat (2 * max_history m)"
    unfolding eq by (simp add: lastn_def)
next
  assume "max_history m = 0 \<and>
        (\<not> redis_client m \<or>
         (\<not> redis_faults m (redis_calls m) \<and> \<not> redis_faults m (Suc (redis_calls m))))"
  then show "stored (add_message m u s r c t) (get_redis_key u s)
            = stored m (get_redis_key u s) @ [\<lparr>role = r, content = c, timestamp = t\<rparr>]"
    by (auto simp: add_message_def stored_def load_state_def save_state_def redis_call_def
        py_slice_from_def Let_def split: option.splits)
qed

theorem add_message_history_bounded_fifo_witness:
  "1 \<le> max_history (new_memory 1)
   \<and> (\<forall>k. length (stored (new_memory 1) k) \<le> nat (2 * max_history (new_memory 1)))
   \<and> (\<forall>k. length (stored (appends (new_memory 1) three_turns) k) \<le> 2)
   \<and> \<not> redis_client (appends (new_memory 1) [three_turns ! 0, three_turns ! 1])
   \<and> stored (add_message (appends (new_memory 1) [three_turns ! 0, three_turns ! 1])
               ''u1'' ''s1'' ''user'' ''q2'' ''t3'') (get_redis_key ''u1'' ''s1'')
       = [\<lparr>role = ''assistant'', content = ''a1'', timestamp = ''t2''\<rparr>,
          \<lparr>role = ''user'', content = ''q2'', timestamp = ''t3''\<rparr>]
   \<and> max_history (new_memory 0) = 0 \<and> \<not> redis_client (new_memory 0)
   \<and> stored (add_message (new_memory 0) ''u1'' ''s1'' ''user'' ''q1'' ''t1'')
         (get_redis_key ''u1'' ''s1'')
       = [\<lparr>role = ''user'', content = ''q1'', timestamp = ''t1''\<rparr>]"
proof -
  let ?m2 = "appends (new_memory 1) [three_turns ! 0, three_turns ! 1]"
  have m2: "max_history ?m2 = 1" "\<not> redis_client ?m2"
    "stored ?m2 (get_redis_key ''u1'' ''s1'')
       = [\<lparr>role = ''user'', content = ''q1'', timestamp = ''t1''\<rparr>,
          \<lparr>role = ''assistant'', content = ''a1'', timestamp = ''t2''\<rparr>]"
    by (simp_all add: three_turns_def new_memory_def add_message_def load_state_def
        save_state_def stored_def Let_def)
  have h1: "1 \<le> max_history (new_memory 1)
      \<and> (\<forall>k. length (stored (new_memory 1) k) \<le> nat (2 * max_history (new_memory 1)))"
    by (simp add: new_memory_def stored_def)
  have h0: "max_history (new_memory 0) = 0 \<and> \<not> redis_client (new_memory 0)"
    by (simp add: new_memory_def)
  have hm: "nat (2 * max_history (new_memory 1)) = 2"
    by (simp add: new_memory_def)
  have s0: "stored (new_memory 0) (get_redis_key ''u1'' ''s1'') = []"
    by (simp add: new_memory_def stored_def)
  show ?thesis
    using add_message_history_bounded_fifo
            [of "new_memory 1" three_turns "''u1''" "''s1''" "''user''" "''q2''" "''t3''"]
          add_message_history_bounded_fifo
            [of ?m2 "[]" "''u1''" "''s1''" "''user''" "''q2''" "''t3''"]
          add_message_history_bounded_fifo
            [of "new_memory 0" "[]" "''u1''" "''s1''" "''user''" "''q1''" "''t1''"]
          h1 h0 s0 m2 hm
    by (simp add: lastn_def)
qed

text \<open>
  C4 as stated fails for \<open>max_history = 0\<close>: one append to an empty history stores one
  entry, more than \<open>2 * 0\<close>.
\<close>

theorem add_message_unbounded_counterexample:
  "\<not> int (length (stored (add_message (new_memory 0) ''u1'' ''s1'' ''user'' ''q1'' ''t1'')
                     (get_redis_key ''u1'' ''s1'')))
       \<le> 2 * max_history (new_memory 0)"
  by (simp add: new_memory_def add_message_def load_state_def save_state_def stored_def
      py_slice_from_def Let_def)

text \<open>
  C6: the distinct pairs \<open>(a:b, c)\<close> and \<open>(a, b:c)\<close> are given the same key, so clearing
  the session of the first empties the history of the second.
\<close>

theorem clear_session_key_collision:
  "(''a:b'', ''c'') \<noteq> (''a'', ''b:c'')
   \<and> get_redis_key ''a:b'' ''c'' = get_redis_key ''a'' ''b:c''
   \<and> fst (get_history (add_message (new_memory 10) ''a'' ''b:c'' ''user'' ''hello'' ''t0'')
             ''a'' ''b:c'') = [(''user'', ''hello'')]
   \<and> fst (get_history
            (clear_session (add_message (new_memory 10) ''a'' ''b:c'' ''user'' ''hello'' ''t0'')
               ''a:b'' ''c'')
            ''a'' ''b:c'') = []"
  by (simp add: new_memory_def add_message_def get_history_def clear_session_def load_state_def
      save_state_def get_redis_key_def Let_def)



section \<open>Properties of the retriever and of the pipeline\<close>

text \<open>
  C10: \<open>ingest_qa_pair\<close> with an empty question or an empty answer returns \<open>False\<close>; it makes
  no duplicate-check search and writes nothing to the collection (only the call is logged).
\<close>

theorem ingest_qa_pair_empty_input:
  assumes "qn = [] \<or> ans = []"
  shows "ingest_qa_pair r qn ans thr
           = (False, r\<lparr>ingest_log := ingest_log r @ [(qn, ans)]\<rparr>)
         \<and> searches (snd (ingest_qa_pair r qn ans thr)) = searches r
         \<and> collection (snd (ingest_qa_pair r qn ans thr)) = collection r"
  using assms by (auto simp: ingest_qa_pair_def Let_def)

theorem ingest_qa_pair_empty_input_witness:
  "ingest_qa_pair demo_retriever [] ''An answer.'' DEDUP_THRESHOLD
     = (False, demo_retriever\<lparr>ingest_log := [([], ''An answer.'')]\<rparr>)
   \<and> searches (snd (ingest_qa_pair demo_retriever [] ''An answer.'' DEDUP_THRESHOLD)) = 0
   \<and> collection (snd (ingest_qa_pair demo_retriever [] ''An answer.'' DEDUP_THRESHOLD)) = []
   \<and> fst (ingest_qa_pair demo_retriever ''A question?'' [] DEDUP_THRESHOLD) = False
   \<and> searches (snd (ingest_qa_pair demo_retriever ''A question?'' [] DEDUP_THRESHOLD)) = 0
   \<and> collection (snd (ingest_qa_pair demo_retriever ''A question?'' [] DEDUP_THRESHOLD)) = []"
  using ingest_qa_pair_empty_input [of "[]" "''An answer.''" demo_retriever DEDUP_THRESHOLD]
        ingest_qa_pair_empty_input [of "''A question?''" "[]" demo_retriever DEDUP_THRESHOLD]
  by (simp add: demo_retriever_def)

text \<open>
  C3: for a non-empty question and answer, if the first \<open>ingest_qa_pair\<close> call stored an
  entry and the duplicate check of the second call finds that entry with a score of at
  least the threshold, then the second call returns \<open>True\<close> and writes nothing: the
  collection holds exactly the one entry added by the first call.
\<close>

theorem ingest_qa_pair_idempotent:
  assumes "qn \<noteq> []" and "ans \<noteq> []"
    and "ingest_qa_pair r qn ans thr = (True, r1)"
    and "collection r1 = collection r @ [pt]"
    and "generate_embedding r1 qn = Inr v"
    and "query_points r1 (collection r1) v 5 (Some [(''document_type'', ''Generated Q&A'')])
           = Inr results"
    and "res \<in> set results" and "payload res = pt_payload pt" and "score res \<ge> thr"
  shows "fst (ingest_qa_pair r1 qn ans thr) = True
         \<and> collection (snd (ingest_qa_pair r1 qn ans thr)) = collection r @ [pt]"
proof -
  have "list_ex (\<lambda>x. score x \<ge> thr) results"
    using assms(7,9) by (auto simp: list_ex_iff)
  then show ?thesis
    using assms(1,2,4,5,6) by (simp add: ingest_qa_pair_def Let_def)
qed


lemma demo_first_call:
  "ingest_qa_pair demo_retriever demo_question demo_answer DEDUP_THRESHOLD = (True, demo_retriever1)"
  by (simp add: ingest_qa_pair_def demo_retriever_def demo_retriever1_def demo_search_def
      demo_point_def demo_question_def demo_answer_def Let_def)

lemma demo_second_search:
  "query_points demo_retriever1 (collection demo_retriever1) [22] 5
      (Some [(''document_type'', ''Generated Q&A'')])
     = Inr [\<lparr>payload = pt_payload demo_point, score = 1\<rparr>]"
  by (simp add: demo_retriever_def demo_retriever1_def demo_search_def demo_point_def
      qa_payload_def)

theorem ingest_qa_pair_idempotent_witness:
  "demo_question \<noteq> [] \<and> demo_answer \<noteq> []
   \<and> ingest_qa_pair demo_retriever demo_question demo_answer DEDUP_THRESHOLD
       = (True, demo_retriever1)
   \<and> collection demo_retriever1 = collection demo_retriever @ [demo_point]
   \<and> DEDUP_THRESHOLD \<le> score \<lparr>payload = pt_payload demo_point, score = 1\<rparr>
   \<and> fst (ingest_qa_pair demo_retriever1 demo_question demo_answer DEDUP_THRESHOLD) = True
   \<and> collection (snd (ingest_qa_pair demo_retriever1 demo_question demo_answer DEDUP_THRESHOLD))
       = [demo_point]"
proof -
  have h1: "demo_question \<noteq> []" and h2: "demo_answer \<noteq> []"
    by (simp_all add: demo_question_def demo_answer_def)
  have h4: "collection demo_retriever1 = collection demo_retriever @ [demo_point]"
    by (simp add: demo_retriever1_def demo_retriever_def)
  have h5: "generate_embedding demo_retriever1 demo_question = Inr [22]"
    by (simp add: demo_retriever1_def demo_retriever_def demo_question_def)
  have h7: "\<lparr>payload = pt_payload demo_point, score = 1\<rparr>
              \<in> set [\<lparr>payload = pt_payload demo_point, score = 1\<rparr>]"
    by simp
  have h8: "payload \<lparr>payload = pt_payload demo_point, score = 1\<rparr> = pt_payload demo_point"
    by simp
  have h9: "DEDUP_THRESHOLD \<le> score \<lparr>payload = pt_payload demo_point, score = 1\<rparr>"
    by (simp add: DEDUP_THRESHOLD_def)
  have c: "collection demo_retriever = []" by (simp add: demo_retriever_def)
  show ?thesis
    using ingest_qa_pair_idempotent [OF h1 h2 demo_first_call h4 h5 demo_second_search h7 h8 h9]
          h1 h2 demo_first_call h4 h9 c
    by simp
qed

text \<open>
  C7: \<open>retrieve\<close> returns the empty list for the empty query and whenever the query
  processor, the embedding or the search of the index raises; its value is a list in every
  case, so no exception leaves it.
\<close>

theorem retrieve_fails_closed:
  assumes "q = []
     \<or> (\<exists>e. process_query r q = Inl e)
     \<or> (\<exists>e n kq. process_query r q = Inr (n, kq)
            \<and> generate_embedding r (if kq \<noteq> [] then kq else n) = Inl e)
     \<or> (\<exists>e n kq v. process_query r q = Inr (n, kq)
            \<and> generate_embedding r (if kq \<noteq> [] then kq else n) = Inr v
            \<and> query_points r (collection r) v (case k of Some j \<Rightarrow> j | None \<Rightarrow> top_k r)
                  (case f of None \<Rightarrow> None | Some fl \<Rightarrow> if fl = [] then None else Some fl)
                = Inl e)"
  shows "fst (retrieve r q k f) = []"
  using assms
  by (auto simp: retrieve_def retrieve_try_def Let_def split: sum.splits prod.splits)

theorem retrieve_fails_closed_witness:
  "fst (retrieve demo_retriever [] None None) = []
   \<and> process_query (demo_retriever\<lparr>process_query := (\<lambda>q. Inl OtherException)\<rparr>) ''stipend?''
       = Inl OtherException
   \<and> fst (retrieve (demo_retriever\<lparr>process_query := (\<lambda>q. Inl OtherException)\<rparr>)
            ''stipend?'' None None) = []
   \<and> generate_embedding (demo_retriever\<lparr>generate_embedding := (\<lambda>q. Inl OtherException)\<rparr>)
         ''stipend?'' = Inl OtherException
   \<and> fst (retrieve (demo_retriever\<lparr>generate_embedding := (\<lambda>q. Inl OtherException)\<rparr>)
            ''stipend?'' None None) = []
   \<and> query_points (demo_retriever\<lparr>query_points := (\<lambda>pts v k f. Inl Timeout)\<rparr>) [] [8] 5 (Some [(''company'', ''Google'')])
       = Inl Timeout
   \<and> fst (retrieve (demo_retriever\<lparr>query_points := (\<lambda>pts v k f. Inl Timeout)\<rparr>)
            ''stipend?'' None (Some [(''company'', ''Google'')])) = []"
  using retrieve_fails_closed [of "[]" demo_retriever None None]
        retrieve_fails_closed [of "''stipend?''"
          "demo_retriever\<lparr>process_query := (\<lambda>q. Inl OtherException)\<rparr>" None None]
        retrieve_fails_closed [of "''stipend?''"
          "demo_retriever\<lparr>generate_embedding := (\<lambda>q. Inl OtherException)\<rparr>" None None]
        retrieve_fails_closed [of "''stipend?''"
          "demo_retriever\<lparr>query_points := (\<lambda>pts v k f. Inl Timeout)\<rparr>" None
          "Some [(''company'', ''Google'')]"]
  by (simp add: demo_retriever_def)


lemma cached_answer_first_hit:
  "cached_answer ds = (case filter is_cache_hit ds of [] \<Rightarrow> None | d # _ \<Rightarrow> metadata d ''answer'')"
  by (induction ds) (auto simp: is_cache_hit_def Let_def split: option.splits)

lemma memory_node_keeps:
  "snd (memory_node c st now) = st"
  "gemini_llm (fst (memory_node c st now)) = gemini_llm c"
  "retriever (fst (memory_node c st now)) = retriever c"
  by (auto simp: memory_node_def Let_def split: option.splits)

lemma execute_unfold:
  "execute c q uid sid now =
     (let docs = fst (retrieve (retriever c) q None None);
          r1 = snd (retrieve (retriever c) q None None);
          m2 = snd (get_formatted_history (snd (get_history (memory c) uid sid)) uid sid);
          valid = validate_retrieval (score_threshold c) docs;
          st = \<lparr>user_id = uid, session_id = sid, query = q,
                conversation_history = fst (get_history (memory c) uid sid),
                formatted_history = history_text c uid sid,
                intent = Some (classify_intent c q), pipeline = Some ''RAG'',
                retrieved_docs = docs, retrieval_valid = valid,
                filtered_docs = (if valid then filter_by_threshold (score_threshold c) docs else []),
                gemini_response = None, answer = None\<rparr>;
          res = rag_answer_node (c\<lparr>memory := m2, retriever := r1\<rparr>) st;
          fin = memory_node (fst res) (snd res) now
      in (map_option clean_response (answer (snd fin)), fst fin))"
  by (simp add: execute_def invoke_def route_node_def should_use_rag_def retrieve_node_def
      validate_node_def history_text_def Let_def case_prod_beta)


lemma retrieve_fst:
  "fst (retrieve r q k fl)
     = (if q = [] then []
        else case fst (retrieve_try r q (case k of Some n \<Rightarrow> n | None \<Rightarrow> top_k r) fl) of
               Inl e \<Rightarrow> [] | Inr ds \<Rightarrow> ds)"
  by (simp add: retrieve_def Let_def split: prod.split sum.split)

lemma retrieve_try_upsert_raises:
  "fst (retrieve_try (r\<lparr>upsert_raises := f\<rparr>) q k fl) = fst (retrieve_try r q k fl)"
  by (simp add: retrieve_try_def Let_def split: sum.split prod.split)

lemma retrieve_upsert_raises:
  "fst (retrieve (r\<lparr>upsert_raises := f\<rparr>) q k fl) = fst (retrieve r q k fl)"
  by (cases k) (simp_all add: retrieve_fst retrieve_try_upsert_raises)

lemma retrieve_try_ingest_log:
  "ingest_log (snd (retrieve_try r q k fl)) = ingest_log r"
  by (simp add: retrieve_try_def Let_def split: sum.split prod.split)

lemma retrieve_ingest_log:
  "ingest_log (snd (retrieve r q k fl)) = ingest_log r"
proof (cases "q = []")
  case True then show ?thesis by (simp add: retrieve_def)
next
  case False
  let ?t = "retrieve_try r q (case k of Some n \<Rightarrow> n | None \<Rightarrow> top_k r) fl"
  have "snd (retrieve r q k fl) = snd ?t"
    using False by (simp add: retrieve_def Let_def split: prod.split sum.split)
  then show ?thesis by (simp add: retrieve_try_ingest_log)
qed

lemma ingest_qa_pair_log:
  "ingest_log (snd (ingest_qa_pair r qn a thr)) = ingest_log r @ [(qn, a)]"
  by (auto simp: ingest_qa_pair_def Let_def split: sum.splits)

lemma call_api_prompts:
  "prompts (snd (call_api llm p)) = prompts llm @ [p]"
  by (auto simp: call_api_def Let_def split: post_outcome.splits body.splits)

lemma call_api_fst_prompts:
  "fst (call_api (llm\<lparr>prompts := ps\<rparr>) p) = fst (call_api llm p)"
  by (auto simp: call_api_def Let_def split: post_outcome.splits body.splits)

lemma not_valid_iff:
  "(\<not> validate_retrieval t docs) = (\<forall>d \<in> set docs. similarity_score d < t)"
  by (auto simp: validate_retrieval_def filter_by_threshold_def filter_empty_conv not_le)

lemma external_knowledge_node_result:
  "answer (snd (external_knowledge_node c st))
     = Some (fst (generate_response (gemini_llm c) (query st) (formatted_history st)))"
  "gemini_llm (fst (external_knowledge_node c st))
     = snd (generate_response (gemini_llm c) (query st) (formatted_history st))"
  "retriever (fst (external_knowledge_node c st))
     = snd (ingest_qa_pair (retriever c) (query st)
              (fst (generate_response (gemini_llm c) (query st) (formatted_history st)))
              DEDUP_THRESHOLD)"
  by (simp_all add: external_knowledge_node_def Let_def case_prod_beta)

lemma execute_external:
  assumes "\<forall>d \<in> set (fst (retrieve (retriever c) q None None)). similarity_score d < score_threshold c"
  shows "fst (execute c q uid sid now)
           = Some (clean_response (fst (generate_response (gemini_llm c) q (history_text c uid sid))))"
    and "gemini_llm (snd (execute c q uid sid now))
           = snd (generate_response (gemini_llm c) q (history_text c uid sid))"
    and "retriever (snd (execute c q uid sid now))
           = snd (ingest_qa_pair (snd (retrieve (retriever c) q None None)) q
                    (fst (generate_response (gemini_llm c) q (history_text c uid sid)))
                    DEDUP_THRESHOLD)"
proof -
  have nv: "\<not> validate_retrieval (score_threshold c) (fst (retrieve (retriever c) q None None))"
    using assms by (simp add: not_valid_iff)
  show "fst (execute c q uid sid now)
           = Some (clean_response (fst (generate_response (gemini_llm c) q (history_text c uid sid))))"
    using nv
    by (simp add: execute_unfold Let_def rag_answer_node_def memory_node_keeps
        external_knowledge_node_result)
  show "gemini_llm (snd (execute c q uid sid now))
           = snd (generate_response (gemini_llm c) q (history_text c uid sid))"
    using nv
    by (simp add: execute_unfold Let_def rag_answer_node_def memory_node_keeps
        external_knowledge_node_result)
  show "retriever (snd (execute c q uid sid now))
           = snd (ingest_qa_pair (snd (retrieve (retriever c) q None None)) q
                    (fst (generate_response (gemini_llm c) q (history_text c uid sid)))
                    DEDUP_THRESHOLD)"
    using nv
    by (simp add: execute_unfold Let_def rag_answer_node_def memory_node_keeps
        external_knowledge_node_result)
qed

text \<open>
  C2: when no retrieved document has a score of at least the threshold of the validator,
  the answer is generated from the conversation history and the question only (the prompt
  has no retrieved context), the auto-ingestor is called exactly once, with the question
  and the generated response, and the returned answer is the same when the write of the
  ingestion fails.
\<close>

theorem low_scores_external_branch:
  assumes "\<forall>d \<in> set (fst (retrieve (retriever c) q None None)).
             similarity_score d < score_threshold c"
  shows "fst (execute c q uid sid now)
           = Some (clean_response
                     (fst (generate_response (gemini_llm c) q (history_text c uid sid))))
     \<and> prompts (gemini_llm (snd (execute c q uid sid now)))
         = prompts (gemini_llm c)
           @ [system_prompt (gemini_llm c) @ [nl, nl]
              @ (if history_text c uid sid \<noteq> [] then history_text c uid sid @ [nl, nl] else [])
              @ ''User Question: '' @ q @ [nl, nl] @ ''Assistant:'']
     \<and> ingest_log (retriever (snd (execute c q uid sid now)))
         = ingest_log (retriever c)
           @ [(q, fst (generate_response (gemini_llm c) q (history_text c uid sid)))]
     \<and> (\<forall>f. fst (execute (c\<lparr>retriever := (retriever c)\<lparr>upsert_raises := f\<rparr>\<rparr>) q uid sid now)
            = fst (execute c q uid sid now))"
proof (intro conjI allI)
  show "fst (execute c q uid sid now)
           = Some (clean_response
                     (fst (generate_response (gemini_llm c) q (history_text c uid sid))))"
    using execute_external(1)[OF assms] .
  show "prompts (gemini_llm (snd (execute c q uid sid now)))
         = prompts (gemini_llm c)
           @ [system_prompt (gemini_llm c) @ [nl, nl]
              @ (if history_text c uid sid \<noteq> [] then history_text c uid sid @ [nl, nl] else [])
              @ ''User Question: '' @ q @ [nl, nl] @ ''Assistant:'']"
    by (simp add: execute_external(2)[OF assms] generate_response_def call_api_prompts Let_def)
  show "ingest_log (retriever (snd (execute c q uid sid now)))
         = ingest_log (retriever c)
           @ [(q, fst (generate_response (gemini_llm c) q (history_text c uid sid)))]"
    by (simp add: execute_external(3)[OF assms] ingest_qa_pair_log retrieve_ingest_log)
next
  fix f
  let ?c = "c\<lparr>retriever := (retriever c)\<lparr>upsert_raises := f\<rparr>\<rparr>"
  have "\<forall>d \<in> set (fst (retrieve (retriever ?c) q None None)). similarity_score d < score_threshold ?c"
    using assms by (simp add: retrieve_upsert_raises)
  from execute_external(1)[OF this, of uid sid now] execute_external(1)[OF assms, of uid sid now]
  show "fst (execute ?c q uid sid now) = fst (execute c q uid sid now)"
    by (simp add: history_text_def)
qed

lemma execute_cache_hit:
  assumes "filter is_cache_hit
             (filter_by_threshold (score_threshold c) (fst (retrieve (retriever c) q None None)))
           = d # rest"
    and "metadata d ''answer'' = Some a"
  shows "fst (execute c q uid sid now) = Some (clean_response a)
     \<and> prompts (gemini_llm (snd (execute c q uid sid now))) = prompts (gemini_llm c)"
proof -
  let ?docs = "fst (retrieve (retriever c) q None None)"
  have ne: "filter_by_threshold (score_threshold c) ?docs \<noteq> []"
    using assms(1) by auto
  then have v: "validate_retrieval (score_threshold c) ?docs"
    by (simp add: validate_retrieval_def)
  have ca: "cached_answer (filter_by_threshold (score_threshold c) ?docs) = Some a"
    using assms by (simp add: cached_answer_first_hit)
  show ?thesis
    using v ca
    by (simp add: execute_unfold Let_def rag_answer_node_def memory_node_keeps)
qed


text \<open>
  C1 (as amended): when the filtered documents contain a cache hit, the pipeline sends no
  prompt to the generative model, and the answer it returns is the stored answer of the
  first cache hit after the final sanitation pass.
\<close>

theorem cache_hit_returned_sanitized:
  assumes "filter is_cache_hit
             (filter_by_threshold (score_threshold c) (fst (retrieve (retriever c) q None None)))
           = d # rest"
    and "metadata d ''answer'' = Some a"
  shows "fst (execute c q uid sid now) = Some (clean_response a)
     \<and> prompts (gemini_llm (snd (execute c q uid sid now))) = prompts (gemini_llm c)"
  using assms by (rule execute_cache_hit)

lemma demo_retrieve_hit:
  "fst (retrieve (retriever demo_components) demo_question None None)
     = [\<lparr>doc_content = ''Question: '' @ demo_question @ [nl, nl] @ ''Answer: '' @ demo_answer,
         metadata = (qa_payload demo_question demo_answer)(''content'' := None),
         similarity_score = 1\<rparr>]"
  by (simp add: demo_components_def new_components_def demo_retriever1_def demo_retriever_def
      retrieve_def retrieve_try_def demo_search_def demo_point_def format_result_def
      qa_payload_def demo_question_def TOP_K_RESULTS_def Let_def)

lemma demo_threshold: "score_threshold demo_components = 1 / 2"
  by (simp add: demo_components_def new_components_def ScoreThreshold_init_def
      SIMILARITY_THRESHOLD_def)

lemma clean_demo_answer: "clean_response demo_answer = demo_answer"
  unfolding demo_answer_def by code_simp

theorem cache_hit_returned_sanitized_witness:
  "filter is_cache_hit
     (filter_by_threshold (score_threshold demo_components)
        (fst (retrieve (retriever demo_components) demo_question None None)))
     = [\<lparr>doc_content = ''Question: '' @ demo_question @ [nl, nl] @ ''Answer: '' @ demo_answer,
         metadata = (qa_payload demo_question demo_answer)(''content'' := None),
         similarity_score = 1\<rparr>]
   \<and> ((qa_payload demo_question demo_answer)(''content'' := None)) ''answer'' = Some demo_answer
   \<and> fst (execute demo_components demo_question ''u1'' ''s1'' (''t1'', ''t2'')) = Some demo_answer
   \<and> prompts (gemini_llm (snd (execute demo_components demo_question ''u1'' ''s1'' (''t1'', ''t2''))))
       = []"
proof -
  let ?d = "\<lparr>doc_content = ''Question: '' @ demo_question @ [nl, nl] @ ''Answer: '' @ demo_answer,
         metadata = (qa_payload demo_question demo_answer)(''content'' := None),
         similarity_score = 1\<rparr>"
  have h1: "filter is_cache_hit
     (filter_by_threshold (score_threshold demo_components)
        (fst (retrieve (retriever demo_components) demo_question None None))) = ?d # []"
    by (simp add: demo_retrieve_hit demo_threshold filter_by_threshold_def is_cache_hit_def
        qa_payload_def EXACT_MATCH_THRESHOLD_def demo_answer_def)
  have h2: "metadata ?d ''answer'' = Some demo_answer"
    by (simp add: qa_payload_def)
  have p: "prompts (gemini_llm demo_components) = []"
    by (simp add: demo_components_def new_components_def demo_llm_def)
  show ?thesis
    using cache_hit_returned_sanitized [OF h1 h2, of "''u1''" "''s1''" "(''t1'', ''t2'')"]
          h1 h2 p clean_demo_answer
    by simp
qed


lemma labelled_retrieve:
  "fst (retrieve (retriever labelled_components) demo_question None None)
     = [\<lparr>doc_content = ''Question: '' @ demo_question @ [nl, nl] @ ''Answer: '' @ labelled_answer,
         metadata = (qa_payload demo_question labelled_answer)(''content'' := None),
         similarity_score = 1\<rparr>]"
  by (simp add: labelled_components_def new_components_def demo_retriever_def
      retrieve_def retrieve_try_def demo_search_def format_result_def
      qa_payload_def demo_question_def TOP_K_RESULTS_def Let_def)

lemma clean_labelled_answer: "clean_response labelled_answer = ''A short job.''"
  unfolding labelled_answer_def by code_simp

text \<open>
  C1 as stated fails: the only filtered document is of the generated kind with score 1 and
  the stored answer \<open>Intent: definition\<close>, newline, \<open>A short job.\<close>; the pipeline returns
  \<open>A short job.\<close>, which is not the stored answer.
\<close>

theorem cache_hit_not_verbatim_counterexample:
  "filter_by_threshold (score_threshold labelled_components)
     (fst (retrieve (retriever labelled_components) demo_question None None))
     = [\<lparr>doc_content = ''Question: '' @ demo_question @ [nl, nl] @ ''Answer: '' @ labelled_answer,
         metadata = (qa_payload demo_question labelled_answer)(''content'' := None),
         similarity_score = 1\<rparr>]
   \<and> ((qa_payload demo_question labelled_answer)(''content'' := None)) ''document_type''
       = Some ''Generated Q&A''
   \<and> EXACT_MATCH_THRESHOLD \<le> 1
   \<and> ((qa_payload demo_question labelled_answer)(''content'' := None)) ''answer''
       = Some labelled_answer
   \<and> fst (execute labelled_components demo_question ''u1'' ''s1'' (''t1'', ''t2''))
       = Some ''A short job.''
   \<and> ''A short job.'' \<noteq> labelled_answer"
proof -
  let ?d = "\<lparr>doc_content = ''Question: '' @ demo_question @ [nl, nl] @ ''Answer: '' @ labelled_answer,
         metadata = (qa_payload demo_question labelled_answer)(''content'' := None),
         similarity_score = 1\<rparr>"
  have t: "score_threshold labelled_components = 1 / 2"
    by (simp add: labelled_components_def new_components_def ScoreThreshold_init_def
      SIMILARITY_THRESHOLD_def)
  have f: "filter_by_threshold (score_threshold labelled_components)
     (fst (retrieve (retriever labelled_components) demo_question None None)) = [?d]"
    by (simp add: labelled_retrieve t filter_by_threshold_def)
  have la: "labelled_answer \<noteq> []" "''A short job.'' \<noteq> labelled_answer"
    by (simp_all add: labelled_answer_def)
  have h1: "filter is_cache_hit
     (filter_by_threshold (score_threshold labelled_components)
        (fst (retrieve (retriever labelled_components) demo_question None None))) = ?d # []"
    unfolding f using la
    by (simp add: is_cache_hit_def qa_payload_def EXACT_MATCH_THRESHOLD_def)
  have h2: "metadata ?d ''answer'' = Some labelled_answer"
    by (simp add: qa_payload_def)
  show ?thesis
    using execute_cache_hit [OF h1 h2, of "''u1''" "''s1''" "(''t1'', ''t2'')"]
          f la clean_labelled_answer
    by (simp add: qa_payload_def EXACT_MATCH_THRESHOLD_def)
qed

lemma demo_retrieve_miss:
  "fst (retrieve (retriever demo_components) ''Hi?'' None None)
     = [\<lparr>doc_content = ''Question: '' @ demo_question @ [nl, nl] @ ''Answer: '' @ demo_answer,
         metadata = (qa_payload demo_question demo_answer)(''content'' := None),
         similarity_score = 0\<rparr>]"
  by (simp add: demo_components_def new_components_def demo_retriever1_def demo_retriever_def
      retrieve_def retrieve_try_def demo_search_def demo_point_def format_result_def
      qa_payload_def TOP_K_RESULTS_def Let_def)

lemma demo_history: "history_text demo_components ''u1'' ''s1'' = []"
  by (simp add: history_text_def demo_components_def new_components_def new_memory_def
      get_history_def get_formatted_history_def load_state_def Let_def)

lemma strip_demo_reply: "strip '' An internship is a short job. '' = ''An internship is a short job.''"
  by code_simp

lemma clean_demo_reply:
  "clean_response ''An internship is a short job.'' = ''An internship is a short job.''"
  by code_simp

lemma demo_generate:
  "fst (generate_response (gemini_llm demo_components) ''Hi?'' [])
     = ''An internship is a short job.''"
  by (simp add: generate_response_def call_api_def demo_components_def new_components_def
      demo_llm_def reply_def parse_result_def strip_demo_reply Let_def)

theorem low_scores_external_branch_witness:
  "fst (retrieve (retriever demo_components) ''Hi?'' None None)
     = [\<lparr>doc_content = ''Question: '' @ demo_question @ [nl, nl] @ ''Answer: '' @ demo_answer,
         metadata = (qa_payload demo_question demo_answer)(''content'' := None),
         similarity_score = 0\<rparr>]
   \<and> 0 < score_threshold demo_components
   \<and> fst (execute demo_components ''Hi?'' ''u1'' ''s1'' (''t1'', ''t2''))
       = Some ''An internship is a short job.''
   \<and> prompts (gemini_llm (snd (execute demo_components ''Hi?'' ''u1'' ''s1'' (''t1'', ''t2''))))
       = [''You are a helpful assistant.'' @ [nl, nl] @ ''User Question: Hi?'' @ [nl, nl]
          @ ''Assistant:'']
   \<and> ingest_log (retriever (snd (execute demo_components ''Hi?'' ''u1'' ''s1'' (''t1'', ''t2''))))
       = [(demo_question, demo_answer), (''Hi?'', ''An internship is a short job.'')]
   \<and> fst (execute (demo_components\<lparr>retriever :=
               (retriever demo_components)\<lparr>upsert_raises := (\<lambda>pts p. True)\<rparr>\<rparr>)
             ''Hi?'' ''u1'' ''s1'' (''t1'', ''t2''))
       = Some ''An internship is a short job.''"
proof -
  have h: "\<forall>d \<in> set (fst (retrieve (retriever demo_components) ''Hi?'' None None)).
        similarity_score d < score_threshold demo_components"
    by (simp add: demo_retrieve_miss demo_threshold)
  have l: "ingest_log (retriever demo_components) = [(demo_question, demo_answer)]"
      "prompts (gemini_llm demo_components) = []"
      "system_prompt (gemini_llm demo_components) = ''You are a helpful assistant.''"
    by (simp_all add: demo_components_def new_components_def demo_retriever1_def demo_llm_def)
  show ?thesis
    using low_scores_external_branch [OF h, of "''u1''" "''s1''" "(''t1'', ''t2'')"]
          h l demo_retrieve_miss demo_history demo_generate clean_demo_reply
    by simp
qed



section \<open>Properties of the generative client and of the sanitation pass\<close>


lemmas apology_defs =
  http_error_text_def blank_response_text_def missing_candidates_text_def
  missing_content_text_def max_tokens_text_def safety_text_def missing_parts_text_def
  empty_parts_text_def empty_text_text_def timeout_apology_def network_text_def
  key_error_text_def unexpected_text_def

lemma apologies_distinct: "distinct apologies"
  by (simp add: apologies_def apology_defs)

lemma apologies_nonempty: "list_all (\<lambda>s. s \<noteq> []) apologies"
  by (simp add: apologies_def apology_defs)

lemma clean_http_error_text: "clean_response http_error_text = http_error_text"
  unfolding http_error_text_def by code_simp
lemma clean_blank_response_text: "clean_response blank_response_text = blank_response_text"
  unfolding blank_response_text_def by code_simp
lemma clean_missing_candidates_text: "clean_response missing_candidates_text = missing_candidates_text"
  unfolding missing_candidates_text_def by code_simp
lemma clean_missing_content_text: "clean_response missing_content_text = missing_content_text"
  unfolding missing_content_text_def by code_simp
lemma clean_max_tokens_text: "clean_response max_tokens_text = max_tokens_text"
  unfolding max_tokens_text_def by code_simp
lemma clean_safety_text: "clean_response safety_text = safety_text"
  unfolding safety_text_def by code_simp
lemma clean_missing_parts_text: "clean_response missing_parts_text = missing_parts_text"
  unfolding missing_parts_text_def by code_simp
lemma clean_empty_parts_text: "clean_response empty_parts_text = empty_parts_text"
  unfolding empty_parts_text_def by code_simp
lemma clean_empty_text_text: "clean_response empty_text_text = empty_text_text"
  unfolding empty_text_text_def by code_simp
lemma clean_timeout_apology: "clean_response timeout_apology = timeout_apology"
  unfolding timeout_apology_def by code_simp
lemma clean_network_text: "clean_response network_text = network_text"
  unfolding network_text_def by code_simp
lemma clean_key_error_text: "clean_response key_error_text = key_error_text"
  unfolding key_error_text_def by code_simp
lemma clean_unexpected_text: "clean_response unexpected_text = unexpected_text"
  unfolding unexpected_text_def by code_simp


lemma apology_nonempty:
  "http_error_text \<noteq> []" "blank_response_text \<noteq> []" "missing_candidates_text \<noteq> []"
  "missing_content_text \<noteq> []" "max_tokens_text \<noteq> []" "safety_text \<noteq> []"
  "missing_parts_text \<noteq> []" "empty_parts_text \<noteq> []" "empty_text_text \<noteq> []"
  "timeout_apology \<noteq> []" "network_text \<noteq> []" "key_error_text \<noteq> []"
  "unexpected_text \<noteq> []"
  by (simp_all add: apology_defs)

lemma apologies_clean: "list_all (\<lambda>s. s \<noteq> [] \<and> clean_response s = s) apologies"
  by (simp add: apologies_def apology_nonempty clean_http_error_text clean_blank_response_text
      clean_missing_candidates_text clean_missing_content_text clean_max_tokens_text
      clean_safety_text clean_missing_parts_text clean_empty_parts_text clean_empty_text_text
      clean_timeout_apology clean_network_text clean_key_error_text clean_unexpected_text)

lemma handler_nonempty: "handler e \<noteq> []"
  by (cases e) (simp_all add: apology_nonempty)

lemma handler_apology: "handler e \<in> set apologies"
  by (cases e) (simp_all add: apologies_def)

lemma parse_result_nonempty: "parse_result r \<noteq> []"
  by (simp add: parse_result_def Let_def apology_nonempty
      split: api_result.split option.split list.split)

lemma call_api_nonempty: "fst (call_api llm p) \<noteq> []"
  by (simp add: call_api_def Let_def handler_nonempty parse_result_nonempty apology_nonempty
      split: post_outcome.split body.split)

lemma execute_answer:
  "fst (execute c q uid sid now)
     = Some (clean_response
         (let docs = fst (retrieve (retriever c) q None None);
              h = history_text c uid sid
          in if \<not> validate_retrieval (score_threshold c) docs
             then fst (generate_response (gemini_llm c) q h)
             else (case cached_answer (filter_by_threshold (score_threshold c) docs) of
                     Some a \<Rightarrow> a
                   | None \<Rightarrow>
                       fst (generate_rag_answer (gemini_llm c)
                              (format_retrieved_context
                                 (filter_by_threshold (score_threshold c) docs)) q h))))"
  by (simp add: execute_unfold Let_def rag_answer_node_def memory_node_keeps
      external_knowledge_node_result case_prod_beta split: option.split)

lemma execute_generated_apology:
  assumes "\<forall>p. fst (call_api (gemini_llm c) p) \<in> set apologies"
    and "cached_answer (filter_by_threshold (score_threshold c)
           (fst (retrieve (retriever c) q None None))) = None"
  shows "\<exists>s \<in> set apologies. fst (execute c q uid sid now) = Some s"
proof -
  let ?docs = "fst (retrieve (retriever c) q None None)"
  let ?h = "history_text c uid sid"
  define a where "a = (if \<not> validate_retrieval (score_threshold c) ?docs
             then fst (generate_response (gemini_llm c) q ?h)
             else fst (generate_rag_answer (gemini_llm c)
                         (format_retrieved_context
                            (filter_by_threshold (score_threshold c) ?docs)) q ?h))"
  have e: "fst (execute c q uid sid now) = Some (clean_response a)"
    using assms(2) by (simp add: execute_answer a_def Let_def)
  have "a \<in> set apologies"
    using assms(1) by (simp add: a_def generate_response_def generate_rag_answer_def Let_def)
  moreover have "\<forall>s \<in> set apologies. clean_response s = s"
    using apologies_clean by (simp add: list_all_iff)
  ultimately show ?thesis using e by auto
qed

text \<open>
  The generative call never returns the empty string: a timeout, an HTTP error, missing
  candidates, a safety block and an empty text are each mapped to an apology string; the
  thirteen apology strings are non-empty and pairwise distinct, and the final sanitation
  pass returns each of them unchanged, so a pipeline whose generative calls all fail and
  that has no cached answer returns one of them.
\<close>

lemma call_api_failure_modes:
  "fst (call_api llm p) \<noteq> []
   \<and> (post llm p = Post_raises Timeout \<longrightarrow> fst (call_api llm p) = timeout_apology)
   \<and> (\<forall>sc b. post llm p = Response sc b \<and> sc \<noteq> 200
         \<longrightarrow> fst (call_api llm p) = http_error_text)
   \<and> (\<forall>cands. post llm p = Response 200 (Body (Result cands)) \<and> (cands = None \<or> cands = Some [])
         \<longrightarrow> fst (call_api llm p) = missing_candidates_text)
   \<and> (\<forall>cs. post llm p
           = Response 200 (Body (Result (Some (Candidate (Some (Content None)) (Some ''SAFETY'') # cs))))
         \<longrightarrow> fst (call_api llm p) = safety_text)
   \<and> (\<forall>t ps fr cs. post llm p
           = Response 200 (Body (Result (Some (Candidate (Some (Content (Some (Part t # ps)))) fr # cs))))
           \<and> strip (case t of None \<Rightarrow> [] | Some x \<Rightarrow> x) = []
         \<longrightarrow> fst (call_api llm p) = empty_text_text)
   \<and> distinct apologies
   \<and> list_all (\<lambda>s. s \<noteq> [] \<and> clean_response s = s) apologies
   \<and> ((\<forall>p'. fst (call_api (gemini_llm c) p') \<in> set apologies)
        \<and> cached_answer (filter_by_threshold (score_threshold c)
              (fst (retrieve (retriever c) q None None))) = None
       \<longrightarrow> (\<exists>s \<in> set apologies. fst (execute c q uid sid now) = Some s))"
proof (intro conjI allI impI)
  show "fst (call_api llm p) \<noteq> []" by (rule call_api_nonempty)
  show "distinct apologies" by (rule apologies_distinct)
  show "list_all (\<lambda>s. s \<noteq> [] \<and> clean_response s = s) apologies" by (rule apologies_clean)
next
  assume "post llm p = Post_raises Timeout"
  then show "fst (call_api llm p) = timeout_apology" by (simp add: call_api_def Let_def)
next
  fix sc b assume "post llm p = Response sc b \<and> sc \<noteq> 200"
  then show "fst (call_api llm p) = http_error_text" by (simp add: call_api_def Let_def)
next
  fix cands
  assume "post llm p = Response 200 (Body (Result cands)) \<and> (cands = None \<or> cands = Some [])"
  then show "fst (call_api llm p) = missing_candidates_text"
    by (auto simp: call_api_def parse_result_def Let_def)
next
  fix cs
  assume "post llm p
           = Response 200 (Body (Result (Some (Candidate (Some (Content None)) (Some ''SAFETY'') # cs))))"
  then show "fst (call_api llm p) = safety_text"
    by (simp add: call_api_def parse_result_def Let_def)
next
  fix t ps fr cs
  assume "post llm p
           = Response 200 (Body (Result (Some (Candidate (Some (Content (Some (Part t # ps)))) fr # cs))))
           \<and> strip (case t of None \<Rightarrow> [] | Some x \<Rightarrow> x) = []"
  then show "fst (call_api llm p) = empty_text_text"
    by (simp add: call_api_def parse_result_def Let_def)
next
  assume "(\<forall>p'. fst (call_api (gemini_llm c) p') \<in> set apologies)
        \<and> cached_answer (filter_by_threshold (score_threshold c)
              (fst (retrieve (retriever c) q None None))) = None"
  then show "\<exists>s \<in> set apologies. fst (execute c q uid sid now) = Some s"
    using execute_generated_apology by blast
qed

lemma strip_label_only: "strip ''Intent: greeting'' = ''Intent: greeting''"
  by code_simp

lemma clean_label_only: "clean_response ''Intent: greeting'' = []"
  by code_simp

lemma strip_hello: "strip ''Hello there'' = ''Hello there''"
  by code_simp

text \<open>
  C8: the final answer is not always non-empty. The query \<open>Hello there\<close> is accepted at the
  boundary, nothing is retrieved, the model generates the text \<open>Intent: greeting\<close>, and
  the final sanitation pass removes the label line: the pipeline returns the empty string,
  where the generative client, the default of \<open>execute\<close> and the streaming loop each
  replace an empty text by an apology.
\<close>

theorem sanitation_empties_answer:
  "fst (chatbot_query label_only_components ''Hello there'' ''u1'' ''s1'' (''t1'', ''t2''))
     = Some []"
proof -
  have r: "fst (retrieve (retriever label_only_components) ''Hello there'' None None) = []"
    by (simp add: label_only_components_def new_components_def demo_retriever_def
      retrieve_def retrieve_try_def demo_search_def TOP_K_RESULTS_def Let_def)
  have h: "history_text label_only_components ''u1'' ''s1'' = []"
    by (simp add: history_text_def label_only_components_def new_components_def new_memory_def
      get_history_def get_formatted_history_def load_state_def Let_def)
  have g: "fst (generate_response (gemini_llm label_only_components) ''Hello there'' [])
             = ''Intent: greeting''"
    by (simp add: generate_response_def call_api_def label_only_components_def
      new_components_def demo_llm_def reply_def parse_result_def strip_label_only Let_def)
  have "fst (execute label_only_components ''Hello there'' ''u1'' ''s1'' (''t1'', ''t2''))
          = Some []"
    by (simp add: execute_answer r h g validate_retrieval_def filter_by_threshold_def
        clean_label_only Let_def)
  then show ?thesis by (simp add: chatbot_query_def strip_hello)
qed


lemma down_retrieve:
  "fst (retrieve (retriever down_components) ''Hi?'' None None)
     = [\<lparr>doc_content = ''Question: '' @ demo_question @ [nl, nl] @ ''Answer: '' @ demo_answer,
         metadata = (qa_payload demo_question demo_answer)(''content'' := None),
         similarity_score = 0\<rparr>]"
  by (simp add: down_components_def new_components_def demo_retriever1_def demo_retriever_def
      retrieve_def retrieve_try_def demo_search_def demo_point_def format_result_def
      qa_payload_def TOP_K_RESULTS_def Let_def)

lemma down_call_api: "fst (call_api (gemini_llm down_components) p) = timeout_apology"
  by (simp add: call_api_def down_components_def new_components_def demo_llm_def Let_def)

lemma call_api_failure_modes_examples:
  "post (gemini_llm down_components) ''p'' = Post_raises Timeout
   \<and> fst (call_api (gemini_llm down_components) ''p'') = timeout_apology
   \<and> timeout_apology \<noteq> []
   \<and> clean_response timeout_apology = timeout_apology
   \<and> fst (call_api (demo_llm\<lparr>post := (\<lambda>p. Response 503 (Body Blank))\<rparr>) ''p'') = http_error_text
   \<and> fst (call_api (demo_llm\<lparr>post := (\<lambda>p. Response 200 (Body (Result None)))\<rparr>) ''p'')
       = missing_candidates_text
   \<and> fst (call_api (demo_llm\<lparr>post := (\<lambda>p. Response 200 (Body (Result (Some
            [Candidate (Some (Content None)) (Some ''SAFETY'')]))))\<rparr>) ''p'') = safety_text
   \<and> strip ''  '' = []
   \<and> fst (call_api (demo_llm\<lparr>post := (\<lambda>p. reply ''  '')\<rparr>) ''p'') = empty_text_text
   \<and> cached_answer (filter_by_threshold (score_threshold down_components)
         (fst (retrieve (retriever down_components) ''Hi?'' None None))) = None
   \<and> fst (execute down_components ''Hi?'' ''u1'' ''s1'' (''t1'', ''t2'')) = Some timeout_apology"
proof -
  have p: "post (gemini_llm down_components) ''p'' = Post_raises Timeout"
    by (simp add: down_components_def new_components_def demo_llm_def)
  have s: "strip ''  '' = []" by code_simp
  have a: "\<forall>p'. fst (call_api (gemini_llm down_components) p') \<in> set apologies"
    by (simp add: down_call_api apologies_def)
  have t: "score_threshold down_components = 1 / 2"
    by (simp add: down_components_def new_components_def ScoreThreshold_init_def
      SIMILARITY_THRESHOLD_def)
  have f: "filter_by_threshold (score_threshold down_components)
         (fst (retrieve (retriever down_components) ''Hi?'' None None)) = []"
    by (simp add: down_retrieve t filter_by_threshold_def)
  have c: "cached_answer (filter_by_threshold (score_threshold down_components)
         (fst (retrieve (retriever down_components) ''Hi?'' None None))) = None"
    by (simp add: f)
  have e: "fst (execute down_components ''Hi?'' ''u1'' ''s1'' (''t1'', ''t2''))
             = Some (clean_response timeout_apology)"
    by (simp add: execute_answer validate_retrieval_def f generate_response_def down_call_api
        Let_def)
  show ?thesis
    using call_api_failure_modes
            [of "gemini_llm down_components" "''p''" down_components "''Hi?''" "''u1''" "''s1''"
                "(''t1'', ''t2'')"]
          call_api_failure_modes
            [of "demo_llm\<lparr>post := (\<lambda>p. Response 503 (Body Blank))\<rparr>" "''p''"]
          call_api_failure_modes
            [of "demo_llm\<lparr>post := (\<lambda>p. Response 200 (Body (Result None)))\<rparr>" "''p''"]
          call_api_failure_modes
            [of "demo_llm\<lparr>post := (\<lambda>p. Response 200 (Body (Result (Some
                  [Candidate (Some (Content None)) (Some ''SAFETY'')]))))\<rparr>" "''p''"]
          call_api_failure_modes
            [of "demo_llm\<lparr>post := (\<lambda>p. reply ''  '')\<rparr>" "''p''"]
          p s a c e
    by (simp add: reply_def apologies_def)
qed



section \<open>Thresholds\<close>


lemma valid_iff:
  "validate_retrieval t docs = (\<exists>d \<in> set docs. similarity_score d \<ge> t)"
  by (auto simp: validate_retrieval_def filter_by_threshold_def filter_empty_conv)

lemma cached_answer_hit:
  "cached_answer docs = Some a \<Longrightarrow>
     \<exists>d \<in> set docs. similarity_score d \<ge> EXACT_MATCH_THRESHOLD
        \<and> metadata d ''document_type'' = Some ''Generated Q&A'' \<and> metadata d ''answer'' = Some a"
  by (induction docs) (auto simp: Let_def split: if_splits option.splits)

text \<open>
  C9: the pipeline's score validator has the threshold 0.50, the configured default, and
  the exact-match threshold is 0.90. The validator accepts a retrieval exactly when some
  document scores at least 0.50, and a retrieval that is not accepted sends
  \<open>rag_answer_node\<close> to the external branch; an answer is taken from the cache only from a
  document of the generated kind that scores at least 0.90.
\<close>

theorem configured_thresholds:
  "score_threshold (new_components r llm cl m) = 50 / 100
   \<and> EXACT_MATCH_THRESHOLD = 90 / 100
   \<and> (retrieval_valid (snd (validate_node (new_components r llm cl m) st))
        \<longleftrightarrow> (\<exists>d \<in> set (retrieved_docs st). similarity_score d \<ge> 50 / 100))
   \<and> (\<not> retrieval_valid st \<longrightarrow>
        rag_answer_node c st = external_knowledge_node c st)
   \<and> (cached_answer docs = Some a \<longrightarrow>
        (\<exists>d \<in> set docs. similarity_score d \<ge> 90 / 100
           \<and> metadata d ''document_type'' = Some ''Generated Q&A''
           \<and> metadata d ''answer'' = Some a))"
proof (intro conjI impI)
  show "score_threshold (new_components r llm cl m) = 50 / 100"
    by (simp add: new_components_def ScoreThreshold_init_def SIMILARITY_THRESHOLD_def)
  show "EXACT_MATCH_THRESHOLD = 90 / 100" by (simp add: EXACT_MATCH_THRESHOLD_def)
  show "retrieval_valid (snd (validate_node (new_components r llm cl m) st))
        \<longleftrightarrow> (\<exists>d \<in> set (retrieved_docs st). similarity_score d \<ge> 50 / 100)"
    by (simp add: validate_node_def Let_def valid_iff new_components_def ScoreThreshold_init_def
        SIMILARITY_THRESHOLD_def)
next
  assume "\<not> retrieval_valid st"
  then show "rag_answer_node c st = external_knowledge_node c st"
    by (simp add: rag_answer_node_def)
next
  assume "cached_answer docs = Some a"
  from cached_answer_hit[OF this]
  show "\<exists>d \<in> set docs. similarity_score d \<ge> 90 / 100
           \<and> metadata d ''document_type'' = Some ''Generated Q&A''
           \<and> metadata d ''answer'' = Some a"
    by (simp add: EXACT_MATCH_THRESHOLD_def)
qed

theorem configured_thresholds_witness:
  "score_threshold demo_components = 50 / 100
   \<and> retrieved_docs demo_state = [borderline_doc]
   \<and> similarity_score borderline_doc \<ge> 50 / 100
   \<and> retrieval_valid (snd (validate_node demo_components demo_state))
   \<and> \<not> retrieval_valid demo_state
   \<and> rag_answer_node demo_components demo_state
       = external_knowledge_node demo_components demo_state
   \<and> cached_answer [hit_doc] = Some demo_answer
   \<and> similarity_score hit_doc \<ge> 90 / 100
   \<and> metadata hit_doc ''document_type'' = Some ''Generated Q&A''
   \<and> metadata hit_doc ''answer'' = Some demo_answer"
proof -
  have h: "cached_answer [hit_doc] = Some demo_answer"
    by (simp add: hit_doc_def qa_payload_def EXACT_MATCH_THRESHOLD_def demo_answer_def Let_def)
  have m: "metadata hit_doc ''document_type'' = Some ''Generated Q&A''"
      "metadata hit_doc ''answer'' = Some demo_answer" "similarity_score hit_doc \<ge> 90 / 100"
    by (simp_all add: hit_doc_def qa_payload_def)
  have d: "retrieved_docs demo_state = [borderline_doc]" "\<not> retrieval_valid demo_state"
      "similarity_score borderline_doc \<ge> 50 / 100"
    by (simp_all add: demo_state_def borderline_doc_def)
  show ?thesis
    using configured_thresholds
            [of demo_retriever1 demo_llm "\<lambda>q. ''GENERAL_EDUCATION''" "new_memory 10" demo_state
                demo_components "[hit_doc]" demo_answer]
          h m d
    by (simp add: demo_components_def)
qed



section \<open>Properties of the streaming dispatcher\<close>










declare sse_loop.simps [simp del]



















text \<open>
  When the worker ends with an empty answer between two tests of the loop, the branch after
  the loop emits nothing: the sequence has no terminal event (the branch inside the loop
  sends the fallback chunk and done for the same answer).
\<close>

lemma sse_empty_answer_after_loop:
  "generate_sse_response late_empty_schedule None = [Start, Keepalive]"
  by code_simp


end
